theory Spec2Isabelle
  imports
    Complex_Main
    "HOL-Library.Multiset"
    "HOL-Library.Char_ord"
    "HOL-Library.List_Lexorder"
    "HOL-Library.Product_Lexorder"
begin

section \<open>Numbers, rows and frames\<close>

text \<open>
  The program is Python on top of pandas. A float64 is idealised: a finite value is a real
  number (no rounding, no overflow), and the two non-finite outcomes the code can produce are
  kept apart, because pandas treats them differently: \<open>NaN\<close> is "missing" for
  \<open>dropna\<close>, while an infinity (a division of a non-zero price by a zero price) is not.
  The sign of an infinity never matters below, so there is one \<open>Infinite\<close>.

  A calendar date is its day number (an \<open>int\<close>), a ticker is a string; strings are
  ordered as Python orders them, lexicographically by character code.

  The pandas calls of the source (\<open>sort_values\<close>, \<open>groupby\<close>, \<open>pct_change\<close>,
  \<open>shift\<close>, \<open>corr\<close>, \<open>dropna\<close>, \<open>merge\<close>, \<open>mean\<close>) are library code; each is
  embedded as the function its documentation describes, under the name it has in pandas.
\<close>

datatype float64 = Finite real | Infinite | NaN

text \<open>
  One row of the frame \<open>calculate_sentiment_price_correlation\<close> works on: the columns
  \<open>ticker\<close>, \<open>date\<close>, \<open>adj_close\<close> and \<open>sentiment_score\<close> its docstring requires. The
  input cells are finite numbers (the pipeline builds them from a mean of scores and from
  closing prices).
\<close>

record combined =
  ticker :: string
  date :: int
  adj_close :: real
  sentiment_score :: real

text \<open>
  The exceptions of Python that leave a function of the program: the \<open>KeyError\<close> of a
  frame that lacks a column, and the \<open>TypeError\<close> of subscripting a float. A function that
  can raise returns \<open>Inl\<close> of the exception or \<open>Inr\<close> of its result.
\<close>

datatype py_error = KeyError string | TypeError

section \<open>src/analysis.py: the lagged correlation\<close>

subsection \<open>The pandas operations it calls\<close>

text \<open>
  \<open>Series.shift(periods)\<close>: the value at position \<open>t\<close> is the value at \<open>t - periods\<close>,
  and \<open>NaN\<close> where that position does not exist. \<open>periods\<close> is a Python int and may be
  negative (a shift towards the front).
\<close>

definition shift :: "int \<Rightarrow> real list \<Rightarrow> float64 list" where
  "shift periods xs =
     map (\<lambda>t. let j = int t - periods
              in if 0 \<le> j \<and> j < int (length xs) then Finite (xs ! nat j) else NaN)
         [0..<length xs]"

text \<open>
  \<open>Series.pct_change(periods)\<close> is \<open>x / x.shift(periods) - 1\<close> in float arithmetic:
  \<open>0 / 0\<close> is \<open>NaN\<close>, a non-zero value over zero is an infinity, anything with \<open>NaN\<close> is
  \<open>NaN\<close>. (The forward fill pandas applies first changes nothing: the input has no \<open>NaN\<close>.)
\<close>

fun pct :: "real \<Rightarrow> float64 \<Rightarrow> float64" where
  "pct x (Finite b) = (if b = 0 then (if x = 0 then NaN else Infinite) else Finite (x / b - 1))"
| "pct x Infinite = Finite (- 1)"
| "pct x NaN = NaN"

definition pct_change :: "int \<Rightarrow> real list \<Rightarrow> float64 list" where
  "pct_change periods xs = map2 pct xs (shift periods xs)"

text \<open>
  \<open>df.sort_values(by=['ticker', 'date'] if group_by_ticker else ['date'])\<close>: rows in
  ascending order of the key, rows with equal keys in their input order.
\<close>

definition sort_values :: "bool \<Rightarrow> ('a combined_scheme) list \<Rightarrow> ('a combined_scheme) list" where
  "sort_values group_by_ticker df =
     (if group_by_ticker then sort_key (\<lambda>r. (ticker r, date r)) df else sort_key date df)"

text \<open>
  \<open>df.groupby('ticker')\<close>: the group keys are the distinct tickers in ascending order; the
  group of a key holds the rows of that ticker in frame order.
\<close>

definition group_keys :: "('a combined_scheme) list \<Rightarrow> string list" where
  "group_keys df = sort (remdups (map ticker df))"

definition group_rows :: "string \<Rightarrow> ('a combined_scheme) list \<Rightarrow> ('a combined_scheme) list" where
  "group_rows k df = filter (\<lambda>r. ticker r = k) df"

text \<open>
  \<open>df.groupby('ticker')[col].pct_change(...)\<close> and \<open>.shift(...)\<close> are group-wise
  transforms: the result is a column aligned with the frame, and the cell of row \<open>i\<close> is the
  transform of the column of that row's group, read at the row's position inside its group.
\<close>

definition groupby_transform ::
  "(real list \<Rightarrow> float64 list) \<Rightarrow> ('a combined_scheme \<Rightarrow> real) \<Rightarrow> ('a combined_scheme) list \<Rightarrow> float64 list" where
  "groupby_transform f col df =
     map (\<lambda>i. f (map col (group_rows (ticker (df ! i)) df))
                 ! length (group_rows (ticker (df ! i)) (take i df)))
         [0..<length df]"

text \<open>The cells of a frame-aligned column that belong to the rows of one group.\<close>

definition group_cells :: "string \<Rightarrow> ('a combined_scheme) list \<Rightarrow> 'c list \<Rightarrow> 'c list" where
  "group_cells k df column = map snd (filter (\<lambda>rc. ticker (fst rc) = k) (zip df column))"

text \<open>
  Pearson's coefficient of a list of finite pairs, as \<open>corr(method='pearson')\<close> computes it:
  the sum of the products of the deviations over the root of the product of the two sums of
  squared deviations, and \<open>NaN\<close> when that divisor is zero.
\<close>

definition mean :: "real list \<Rightarrow> real" where
  "mean xs = sum_list xs / real (length xs)"

definition ssqdm :: "real list \<Rightarrow> real" where
  "ssqdm xs = (\<Sum>x\<leftarrow>xs. (x - mean xs)\<^sup>2)"

definition covxy :: "(real \<times> real) list \<Rightarrow> real" where
  "covxy ps = (\<Sum>p\<leftarrow>ps. (fst p - mean (map fst ps)) * (snd p - mean (map snd ps)))"

definition pearson :: "(real \<times> real) list \<Rightarrow> float64" where
  "pearson ps =
     (let divisor = sqrt (ssqdm (map fst ps) * ssqdm (map snd ps))
      in if divisor \<noteq> 0 then Finite (covxy ps / divisor) else NaN)"

text \<open>
  \<open>DataFrame.corr(method='pearson', min_periods=1)\<close> on two columns, which is what
  \<open>groupby('ticker')[['sentiment_lagged', 'price_change']].corr()\<close> runs in each group:
  only the rows where both cells are finite are observations; with fewer than
  \<open>min_periods\<close> of them the coefficient is \<open>NaN\<close>.
\<close>

fun finite_pairs :: "(float64 \<times> float64) list \<Rightarrow> (real \<times> real) list" where
  "finite_pairs [] = []"
| "finite_pairs ((Finite x, Finite y) # cs) = (x, y) # finite_pairs cs"
| "finite_pairs (c # cs) = finite_pairs cs"

definition nancorr :: "nat \<Rightarrow> (float64 \<times> float64) list \<Rightarrow> float64" where
  "nancorr min_periods cells =
     (let obs = finite_pairs cells
      in if length obs < min_periods then NaN else pearson obs)"

text \<open>
  \<open>df.dropna(subset=['sentiment_lagged', 'price_change'])\<close> keeps the rows where neither
  cell is \<open>NaN\<close>; an infinity is not missing.
\<close>

fun notna :: "float64 \<Rightarrow> bool" where
  "notna NaN = False"
| "notna c = True"

definition dropna :: "(float64 \<times> float64) list \<Rightarrow> (float64 \<times> float64) list" where
  "dropna cells = filter (\<lambda>c. notna (fst c) \<and> notna (snd c)) cells"

text \<open>
  \<open>Series.corr(other, method='pearson')\<close>: the rows where both are not \<open>NaN\<close>, \<open>NaN\<close> with
  fewer than one of them, and otherwise numpy's \<open>corrcoef\<close>, which is \<open>NaN\<close> as soon as a
  value is infinite or a series has no variance.
\<close>

definition series_corr :: "(float64 \<times> float64) list \<Rightarrow> float64" where
  "series_corr cells =
     (let valid = dropna cells
      in if length valid < 1 then NaN
         else if list_ex (\<lambda>c. fst c = Infinite \<or> snd c = Infinite) valid then NaN
         else pearson (finite_pairs valid))"

subsection \<open>calculate_sentiment_price_correlation\<close>

text \<open>
  The function returns a Series indexed by ticker (here: the list of its items, in index
  order) when \<open>group_by_ticker\<close> holds and a single float otherwise.
\<close>

datatype correlation = PerTicker "(string \<times> float64) list" | Overall float64

text \<open>
  Lines 40 to 45 and 57 to 58: the sorted copy of the frame with its two new columns,
  \<open>sentiment_lagged\<close> and \<open>price_change\<close>, as rows paired with their two cells.
\<close>

definition lagged_frame ::
  "('a combined_scheme) list \<Rightarrow> int \<Rightarrow> int \<Rightarrow> bool \<Rightarrow> ('a combined_scheme \<times> float64 \<times> float64) list" where
  "lagged_frame df sentiment_lag price_change_lag group_by_ticker =
     (let sorted_df = sort_values group_by_ticker df
      in if group_by_ticker then
           zip sorted_df
             (zip (groupby_transform (shift sentiment_lag) sentiment_score sorted_df)
                  (groupby_transform (pct_change price_change_lag) adj_close sorted_df))
         else
           zip sorted_df
             (zip (shift sentiment_lag (map sentiment_score sorted_df))
                  (pct_change price_change_lag (map adj_close sorted_df))))"

text \<open>
  The whole function. An empty frame returns at line 27. The checks for \<open>None\<close> and for a
  missing column (lines 25 and 33) cannot fire on a frame of \<open>combined\<close> rows. In the
  grouped mode the result has one item per group key: the entry of the group's correlation
  matrix for the pair \<open>(sentiment_lagged, price_change)\<close>.
\<close>

definition calculate_sentiment_price_correlation ::
  "('a combined_scheme) list \<Rightarrow> int \<Rightarrow> int \<Rightarrow> bool \<Rightarrow> correlation" where
  "calculate_sentiment_price_correlation df sentiment_lag price_change_lag group_by_ticker =
     (if df = [] then (if group_by_ticker then PerTicker [] else Overall NaN)
      else
        let work = lagged_frame df sentiment_lag price_change_lag group_by_ticker
        in if group_by_ticker then
             PerTicker
               (map (\<lambda>k. (k, nancorr 1 (group_cells k (map fst work) (map snd work))))
                    (group_keys (map fst work)))
           else
             let df_cleaned = dropna (map snd work)
             in if df_cleaned = [] \<or> length df_cleaned < 2 then Overall NaN
                else Overall (series_corr df_cleaned))"

text \<open>
  What the claims call the paired observations of a ticker: the pairs of a finite lagged
  sentiment and a finite price change that the correlation of the ticker's group is
  computed from.
\<close>

definition paired_observations ::
  "('a combined_scheme) list \<Rightarrow> int \<Rightarrow> int \<Rightarrow> string \<Rightarrow> (real \<times> real) list" where
  "paired_observations df sentiment_lag price_change_lag k =
     (let work = lagged_frame df sentiment_lag price_change_lag True
      in finite_pairs (group_cells k (map fst work) (map snd work)))"

text \<open>The population variance of a series, for stating "zero variance".\<close>

definition variance :: "real list \<Rightarrow> real" where
  "variance xs = ssqdm xs / real (length xs)"

text \<open>
  Scenario A of the specification: one ticker, three days, sentiment 0.5, 0.5, -0.2 and
  prices 100, 101, 99.
\<close>

definition scenario_A :: "combined list" where
  "scenario_A =
     [\<lparr>ticker = ''AAPL'', date = 1, adj_close = 100, sentiment_score = 1 / 2\<rparr>,
      \<lparr>ticker = ''AAPL'', date = 2, adj_close = 101, sentiment_score = 1 / 2\<rparr>,
      \<lparr>ticker = ''AAPL'', date = 3, adj_close = 99, sentiment_score = - (1 / 5)\<rparr>]"


text \<open>The precondition "the (ticker, date) pairs of the frame are unique".\<close>

definition unique_ticker_dates :: "('a combined_scheme) list \<Rightarrow> bool" where
  "unique_ticker_dates df = distinct (map (\<lambda>r. (ticker r, date r)) df)"

text \<open>
  A frame of two tickers that share a date, and the same rows with the first two swapped.
\<close>

definition pooled_rows :: "combined list" where
  "pooled_rows =
     [\<lparr>ticker = ''AAPL'', date = 1, adj_close = 100, sentiment_score = 1 / 10\<rparr>,
      \<lparr>ticker = ''MSFT'', date = 1, adj_close = 200, sentiment_score = 1 / 2\<rparr>,
      \<lparr>ticker = ''AAPL'', date = 2, adj_close = 400, sentiment_score = 3 / 10\<rparr>]"

definition pooled_rows_permuted :: "combined list" where
  "pooled_rows_permuted =
     [\<lparr>ticker = ''MSFT'', date = 1, adj_close = 200, sentiment_score = 1 / 2\<rparr>,
      \<lparr>ticker = ''AAPL'', date = 1, adj_close = 100, sentiment_score = 1 / 10\<rparr>,
      \<lparr>ticker = ''AAPL'', date = 2, adj_close = 400, sentiment_score = 3 / 10\<rparr>]"

section \<open>src/sentiment.py: the daily sentiment\<close>

text \<open>
  A Python \<open>datetime\<close>: its calendar date (a day number) and the time of day.
\<close>

record timestamp =
  day :: int
  second_of_day :: nat

text \<open>
  One dictionary of \<open>headlines_data\<close>, with the values the docstring of
  \<open>get_daily_sentiment\<close> gives its keys: a \<open>datetime\<close> and a string. A field is \<open>None\<close>
  when the dictionary has no such key; the scraper always writes both keys.
\<close>

record headline_record =
  datetime :: "timestamp option"
  headline :: "string option"

text \<open>
  The module's global \<open>analyzer\<close>: \<open>None\<close> when VADER could not be constructed, and
  otherwise the function \<open>text \<mapsto> analyzer.polarity_scores(text)['compound']\<close> on
  strings, whose result is \<open>None\<close> when the call raises. VADER is a collaborator: nothing
  is assumed about the numbers it returns.
\<close>

type_synonym analyzer = "(string \<Rightarrow> real option) option"

text \<open>
  \<open>analyze_sentiment\<close>, lines 26 to 48, on a string: 0.0 for an empty text, \<open>pd.NA\<close> (here
  \<open>None\<close>) when there is no analyzer or the analyzer raises, the compound score otherwise.
  On a string the handler of line 47 prints \<open>text[:50]\<close> and line 48 returns \<open>pd.NA\<close>. No
  line compares the score with a bound.
\<close>

definition analyze_sentiment :: "analyzer \<Rightarrow> string \<Rightarrow> real option" where
  "analyze_sentiment analyzer text =
     (if text = [] then Some 0
      else case analyzer of
             None \<Rightarrow> None
           | Some polarity_scores \<Rightarrow> polarity_scores text)"

text \<open>
  \<open>analyze_sentiment\<close> on one cell of the column \<open>headline\<close>. A record without the key
  has a \<open>NaN\<close> cell, a float that is not falsy, so line 37 does not return. Without an
  analyzer line 41 returns \<open>pd.NA\<close>. With an analyzer, \<open>polarity_scores\<close> raises on a float
  (it calls \<open>text.encode\<close>), and the handler of line 47 evaluates \<open>text[:50]\<close> on that
  float: a \<open>TypeError\<close>, raised inside the handler, leaves the function.
\<close>

definition score_cell :: "analyzer \<Rightarrow> string option \<Rightarrow> py_error + real option" where
  "score_cell analyzer cell =
     (case cell of
        Some text \<Rightarrow> Inr (analyze_sentiment analyzer text)
      | None \<Rightarrow> (case analyzer of
                   None \<Rightarrow> Inr None
                 | Some polarity_scores \<Rightarrow> Inl TypeError))"

text \<open>
  \<open>df['headline'].apply(analyze_sentiment)\<close>, line 71: the cells are scored in the order of
  the rows, and the first exception ends the call.
\<close>

fun apply_analyze_sentiment :: "analyzer \<Rightarrow> string option list \<Rightarrow> py_error + real option list" where
  "apply_analyze_sentiment analyzer [] = Inr []"
| "apply_analyze_sentiment analyzer (cell # cells) =
     (case score_cell analyzer cell of
        Inl e \<Rightarrow> Inl e
      | Inr score \<Rightarrow>
          (case apply_analyze_sentiment analyzer cells of
             Inl e \<Rightarrow> Inl e
           | Inr scores \<Rightarrow> Inr (score # scores)))"

text \<open>
  \<open>dropna(subset=['sentiment_score'])\<close>, line 74, on rows of a date (missing where the
  record has no timestamp) and a score: the rows whose score is \<open>pd.NA\<close> go.
\<close>

definition dropna_scores :: "(int option \<times> real option) list \<Rightarrow> (int option \<times> real) list" where
  "dropna_scores rows =
     concat (map (\<lambda>r. case snd r of None \<Rightarrow> [] | Some s \<Rightarrow> [(fst r, s)]) rows)"

text \<open>The rows that reach a group: \<open>groupby('date')\<close> leaves out the rows whose key is missing.\<close>

definition rows_with_date :: "(int option \<times> real) list \<Rightarrow> (int \<times> real) list" where
  "rows_with_date rows =
     concat (map (\<lambda>r. case fst r of None \<Rightarrow> [] | Some d \<Rightarrow> [(d, snd r)]) rows)"

text \<open>
  \<open>groupby('date')['sentiment_score'].mean()\<close>: one item per distinct date, in ascending
  order of the dates, holding the mean of the scores of the rows of that date.
\<close>

definition groupby_mean :: "(int \<times> real) list \<Rightarrow> (int \<times> real) list" where
  "groupby_mean rows =
     map (\<lambda>d. (d, mean (map snd (filter (\<lambda>p. fst p = d) rows))))
         (sort (remdups (map fst rows)))"

text \<open>
  \<open>get_daily_sentiment\<close>, lines 51 to 83. \<open>pd.DataFrame(headlines_data)\<close> has a column for
  every key that some record has, so the check of line 66 fails only when no record has the
  key. Line 70 gives a missing date to a record without a timestamp. An exception of line
  71 leaves the function: nothing catches it. The result is a Series indexed by date: the
  list of its items.
\<close>

definition get_daily_sentiment :: "analyzer \<Rightarrow> headline_record list \<Rightarrow> py_error + (int \<times> real) list" where
  "get_daily_sentiment analyzer headlines_data =
     (if headlines_data = [] then Inr []
      else if \<not> list_ex (\<lambda>h. datetime h \<noteq> None) headlines_data \<or>
              \<not> list_ex (\<lambda>h. headline h \<noteq> None) headlines_data then Inr []
      else
        let dates = map (\<lambda>h. map_option day (datetime h)) headlines_data
        in case apply_analyze_sentiment analyzer (map headline headlines_data) of
             Inl e \<Rightarrow> Inl e
           | Inr scores \<Rightarrow>
               let df = dropna_scores (zip dates scores)
               in if df = [] then Inr []
                  else Inr (groupby_mean (rows_with_date df)))"

text \<open>
  The scored headlines of the specification, for the statements below: the date and the
  score of every record that has a timestamp and a text whose score is not \<open>pd.NA\<close>.
\<close>

definition scored_headlines :: "analyzer \<Rightarrow> headline_record list \<Rightarrow> (int \<times> real) list" where
  "scored_headlines analyzer headlines_data =
     concat (map (\<lambda>h. case datetime h of
                         None \<Rightarrow> []
                       | Some ts \<Rightarrow>
                           (case headline h of
                              None \<Rightarrow> []
                            | Some text \<Rightarrow>
                                (case analyze_sentiment analyzer text of
                                   None \<Rightarrow> []
                                 | Some s \<Rightarrow> [(day ts, s)])))
                 headlines_data)"

text \<open>The scores of one date among scored headlines.\<close>

definition scores_on :: "int \<Rightarrow> (int \<times> real) list \<Rightarrow> real list" where
  "scores_on d rows = map snd (filter (\<lambda>p. fst p = d) rows)"


definition vader_stub :: analyzer where
  "vader_stub = Some (\<lambda>text. if text = ''Shares soar'' then Some (4 / 5)
                             else if text = ''Profit warning'' then Some (- (1 / 2))
                             else None)"

definition two_days :: "headline_record list" where
  "two_days =
     [\<lparr>datetime = Some \<lparr>day = 5, second_of_day = 34200\<rparr>, headline = Some ''Shares soar''\<rparr>,
      \<lparr>datetime = Some \<lparr>day = 4, second_of_day = 600\<rparr>, headline = Some ''Profit warning''\<rparr>,
      \<lparr>datetime = Some \<lparr>day = 5, second_of_day = 61200\<rparr>, headline = Some ''''\<rparr>,
      \<lparr>datetime = Some \<lparr>day = 5, second_of_day = 61300\<rparr>, headline = Some ''Unscorable''\<rparr>]"


text \<open>A list in which the second dictionary has no \<open>headline\<close> key.\<close>

definition missing_key :: "headline_record list" where
  "missing_key =
     [\<lparr>datetime = Some \<lparr>day = 5, second_of_day = 34200\<rparr>, headline = Some ''Shares soar''\<rparr>,
      \<lparr>datetime = Some \<lparr>day = 5, second_of_day = 61200\<rparr>, headline = None\<rparr>]"

section \<open>src/database.py: the upsert\<close>

text \<open>
  Modelled from the spec: \<open>setup_db.sql\<close>, which declares the table
  \<open>financial_sentiment\<close>, is not among the sources. The specification says that the
  persisted schema is exactly the fields of a combined record keyed by (ticker, date), and
  the \<open>ON CONFLICT (ticker, date)\<close> of the insert needs that key to be unique. So the
  table is a map from (ticker, date) to (adj_close, sentiment_score), and a column stores
  the number it is given.
\<close>

type_synonym table = "string \<times> int \<rightharpoonup> real \<times> real"

text \<open>
  The one error of the statement that depends on the data: PostgreSQL refuses an
  \<open>INSERT ... ON CONFLICT DO UPDATE\<close> whose rows would touch one key twice ("command
  cannot affect row a second time").
\<close>

datatype db_error = CardinalityViolation

definition conflict_key :: "'a combined_scheme \<Rightarrow> string \<times> int" where
  "conflict_key r = (ticker r, date r)"

text \<open>
  One row of the statement of lines 65 to 70: insert, or on a conflict of (ticker, date)
  set \<open>adj_close\<close> and \<open>sentiment_score\<close> to the new row's.
\<close>

definition upsert_row :: "table \<Rightarrow> 'a combined_scheme \<Rightarrow> table" where
  "upsert_row tbl r = tbl(conflict_key r \<mapsto> (adj_close r, sentiment_score r))"

text \<open>One execution of the statement with a page of rows as its \<open>VALUES\<close>.\<close>

definition insert_on_conflict_update :: "table \<Rightarrow> ('a combined_scheme) list \<Rightarrow> db_error + table" where
  "insert_on_conflict_update tbl page =
     (if distinct (map conflict_key page) then Inr (foldl upsert_row tbl page)
      else Inl CardinalityViolation)"

text \<open>
  \<open>psycopg2.extras.execute_values\<close> cuts the rows into pages of \<open>page_size\<close> (100 when
  not given, as here) and executes the statement once per page, in one transaction.
\<close>

function paginate :: "nat \<Rightarrow> 'a list \<Rightarrow> 'a list list" where
  "paginate page_size xs =
     (if xs = [] \<or> page_size = 0 then []
      else take page_size xs # paginate page_size (drop page_size xs))"
  by pat_completeness auto
termination
  by (relation "measure (\<lambda>(n, xs). length xs)") auto

fun run_pages :: "table \<Rightarrow> ('a combined_scheme) list list \<Rightarrow> db_error + table" where
  "run_pages tbl [] = Inr tbl"
| "run_pages tbl (page # pages) =
     (case insert_on_conflict_update tbl page of
        Inl e \<Rightarrow> Inl e
      | Inr tbl' \<Rightarrow> run_pages tbl' pages)"

definition execute_values :: "table \<Rightarrow> ('a combined_scheme) list \<Rightarrow> db_error + table" where
  "execute_values tbl data_tuples = run_pages tbl (paginate 100 data_tuples)"

text \<open>
  \<open>insert_sentiment_data\<close>, lines 40 to 83, as a function from the committed table to the
  committed table: nothing happens for an empty frame (line 50); the frame of combined rows
  has the four columns (line 58); \<open>conn.commit()\<close> keeps the result of all pages, and on an
  exception \<open>conn.rollback()\<close> returns to the table as it was.
\<close>

definition insert_sentiment_data :: "table \<Rightarrow> ('a combined_scheme) list \<Rightarrow> table" where
  "insert_sentiment_data conn data_df =
     (if data_df = [] then conn
      else case execute_values conn data_df of
             Inr committed \<Rightarrow> committed
           | Inl e \<Rightarrow> conn)"

text \<open>A table that already holds a row for one key of scenario A.\<close>

definition stored_before :: table where
  "stored_before = Map.empty((''AAPL'', 2) \<mapsto> (7, 0))"

section \<open>src/scraper.py: the headlines of a ticker\<close>

text \<open>
  What \<open>requests.get\<close> and BeautifulSoup hand to the function: a request that raises, some
  other exception, or a page, which has a news table or not. A table is the list of its
  rows, a row the list of the stripped texts of its cells.
\<close>

datatype response = RequestException | UnexpectedException | Page "string list list option"

text \<open>
  \<open>datetime.strptime\<close> with the format \<open>'%b-%d-%y %I:%M%p'\<close> (\<open>None\<close>: it raises
  \<open>ValueError\<close>) and \<open>strftime('%b-%d-%y')\<close>: library functions, taken as parameters.
\<close>

record parsers =
  strptime :: "string \<Rightarrow> timestamp option"
  strftime :: "timestamp \<Rightarrow> string"

text \<open>
  Lines 50 to 52: a cell with a time only is parsed with the last date seen in front of it,
  when it contains a colon and a date has been seen.
\<close>

definition full_dt_str :: "string option \<Rightarrow> string \<Rightarrow> string option" where
  "full_dt_str last_date_str date_time_str =
     (case last_date_str of
        None \<Rightarrow> None
      | Some d \<Rightarrow> if CHR '':'' \<in> set date_time_str \<and> d \<noteq> [] then Some (d @ '' '' @ date_time_str)
                  else None)"

text \<open>
  The loop of lines 37 to 62 over the rows of the table: a row of two cells with a
  parsable date gives a headline; a row whose text does not parse, or that is of another
  shape, is passed over. \<open>last_date_str\<close> changes only after a full date has parsed.
\<close>

fun parse_rows :: "parsers \<Rightarrow> string option \<Rightarrow> string list list \<Rightarrow> headline_record list" where
  "parse_rows ps last_date_str [] = []"
| "parse_rows ps last_date_str (cells # rows) =
     (case cells of
        [date_time_str, headline_text] \<Rightarrow>
          if CHR '' '' \<in> set date_time_str \<and> CHR ''-'' \<in> set date_time_str then
            (case strptime ps date_time_str of
               None \<Rightarrow> parse_rows ps last_date_str rows
             | Some dt_object \<Rightarrow>
                 \<lparr>datetime = Some dt_object, headline = Some headline_text\<rparr>
                 # parse_rows ps (Some (strftime ps dt_object)) rows)
          else
            (case full_dt_str last_date_str date_time_str of
               None \<Rightarrow> parse_rows ps last_date_str rows
             | Some full \<Rightarrow>
                 (case strptime ps full of
                    None \<Rightarrow> parse_rows ps last_date_str rows
                  | Some dt_object \<Rightarrow>
                      \<lparr>datetime = Some dt_object, headline = Some headline_text\<rparr>
                      # parse_rows ps last_date_str rows))
      | _ \<Rightarrow> parse_rows ps last_date_str rows)"

text \<open>
  \<open>scrape_finviz_headlines\<close>: the empty list on a failed request, on any other exception
  (lines 68 to 73) and on a page without news table (line 33).
\<close>

definition scrape_finviz_headlines :: "parsers \<Rightarrow> response \<Rightarrow> headline_record list" where
  "scrape_finviz_headlines ps resp =
     (case resp of
        RequestException \<Rightarrow> []
      | UnexpectedException \<Rightarrow> []
      | Page None \<Rightarrow> []
      | Page (Some news_table) \<Rightarrow> parse_rows ps None news_table)"

section \<open>src/price_fetcher.py and run_pipeline.py: prices and the loop over the tickers\<close>

text \<open>
  The frame \<open>price_data\<close>, as far as the pipeline reads it: the type, the name and the
  values of its index (dates as day numbers, positions for a \<open>RangeIndex\<close>), its column
  \<open>adj_close\<close> and, when it has one, its column \<open>date\<close>. Other columns are never read.
\<close>

datatype index_type = DatetimeIndex | ObjectIndex | RangeIndex

record price_frame =
  index_type :: index_type
  index_name :: "string option"
  index_values :: "int list"
  close_column :: "real list"
  date_column :: "int list option"

text \<open>\<open>pd.DataFrame()\<close> and \<open>DataFrame.empty\<close>.\<close>

definition empty_frame :: price_frame where
  "empty_frame = \<lparr>index_type = RangeIndex, index_name = None, index_values = [],
                   close_column = [], date_column = None\<rparr>"

definition frame_empty :: "price_frame \<Rightarrow> bool" where
  "frame_empty f = (index_values f = [])"

text \<open>
  \<open>get_stock_data\<close>. The argument is what \<open>yf.Ticker(ticker).history(...)\<close> gives: \<open>None\<close>
  when it raises, else the bars as pairs of a timestamp and a closing price. Line 34,
  \<open>price_df.index = price_df.index.date\<close>, replaces the \<open>DatetimeIndex\<close> by the array of its
  dates: the new index is a plain index of date objects and has no name. The only column
  is \<open>adj_close\<close> (lines 32 and 33).
\<close>

definition get_stock_data :: "(timestamp \<times> real) list option \<Rightarrow> price_frame" where
  "get_stock_data history =
     (case history of
        None \<Rightarrow> empty_frame
      | Some hist \<Rightarrow>
          if hist = [] then empty_frame
          else \<lparr>index_type = ObjectIndex, index_name = None,
                index_values = map (\<lambda>bar. day (fst bar)) hist,
                close_column = map snd hist, date_column = None\<rparr>)"

text \<open>
  \<open>DataFrame.reset_index()\<close>: the index becomes a column under the name of the index
  (a \<open>date\<close> column exactly when the index is named \<open>date\<close>), and the rows are numbered.
\<close>

definition reset_index :: "price_frame \<Rightarrow> price_frame" where
  "reset_index f =
     f\<lparr>index_type := RangeIndex, index_name := None,
       index_values := map int [0..<length (index_values f)],
       date_column := (if index_name f = Some ''date'' then Some (index_values f)
                       else date_column f)\<rparr>"

text \<open>
  Lines 90 to 93 of \<open>run_pipeline.py\<close>. The index is reset when it is a \<open>DatetimeIndex\<close>,
  or is an \<open>Index\<close> (every index is) named \<open>date\<close>; then
  \<open>price_data['date'] = pd.to_datetime(price_data['date']).dt.date\<close> reads the column
  \<open>date\<close>, which raises \<open>KeyError\<close> when the frame has no such column. The result is the
  rows of the frame as pairs of a date and a price, for the merge.
\<close>

definition price_rows_by_date :: "price_frame \<Rightarrow> py_error + (int \<times> real) list" where
  "price_rows_by_date price_data =
     (let price_data = (if index_type price_data = DatetimeIndex \<or> index_name price_data = Some ''date''
                        then reset_index price_data else price_data)
      in case date_column price_data of
           None \<Rightarrow> Inl (KeyError ''date'')
         | Some dates \<Rightarrow> Inr (zip dates (close_column price_data)))"

text \<open>
  \<open>pd.merge(price_data, sentiment_df, on='date', how='inner')\<close>, line 97: for every row of
  the left frame, in its order, one row per row of the right frame with the same date.
\<close>

definition merge_on_date :: "(int \<times> real) list \<Rightarrow> (int \<times> real) list \<Rightarrow> (int \<times> real \<times> real) list" where
  "merge_on_date price_rows sentiment_rows =
     concat (map (\<lambda>p. map (\<lambda>s. (fst p, snd p, snd s)) (filter (\<lambda>s. fst s = fst p) sentiment_rows))
                 price_rows)"

text \<open>Line 98 adds the ticker column: the rows of \<open>combined_df\<close>.\<close>

definition combine_rows :: "string \<Rightarrow> (int \<times> real) list \<Rightarrow> (int \<times> real) list \<Rightarrow> combined list" where
  "combine_rows tk price_rows sentiment_rows =
     map (\<lambda>m. \<lparr>ticker = tk, date = fst m, adj_close = fst (snd m), sentiment_score = snd (snd m)\<rparr>)
         (merge_on_date price_rows sentiment_rows)"

text \<open>What one pass of the loop body does with a ticker.\<close>

datatype outcome = Skipped | Processed "combined list" | Crashed py_error

text \<open>
  Lines 97 to 109: an empty \<open>combined_df\<close> skips the ticker (\<open>continue\<close>, line 102);
  otherwise the rows are upserted and kept for the analysis.
\<close>

definition merge_and_store ::
  "string \<Rightarrow> (int \<times> real) list \<Rightarrow> (int \<times> real) list \<Rightarrow> table \<Rightarrow> outcome \<times> table" where
  "merge_and_store tk price_rows sentiment_rows conn =
     (let combined_df = combine_rows tk price_rows sentiment_rows
      in if combined_df = [] then (Skipped, conn)
         else (Processed combined_df, insert_sentiment_data conn combined_df))"

text \<open>Everything outside the program that a run depends on.\<close>

record world =
  parsers :: parsers
  finviz :: "string \<Rightarrow> response"
  vader :: analyzer
  yfinance :: "string \<Rightarrow> int \<Rightarrow> int \<Rightarrow> (timestamp \<times> real) list option"

text \<open>
  The body of the loop, lines 51 to 112. \<open>daily_sentiment\<close> is already the frame
  \<open>sentiment_df\<close> of lines 84 to 86: its index is named \<open>date\<close> by the \<open>groupby\<close>, so
  \<open>reset_index\<close> gives the columns \<open>date\<close> and \<open>sentiment_score\<close>. No statement of the
  body is inside a \<open>try\<close>: an exception ends the run.
\<close>

definition process_ticker :: "world \<Rightarrow> table \<Rightarrow> string \<Rightarrow> outcome \<times> table" where
  "process_ticker w conn tk =
     (let headlines = scrape_finviz_headlines (parsers w) (finviz w tk)
      in if headlines = [] then (Skipped, conn)
         else
           case get_daily_sentiment (vader w) headlines of
             Inl e \<Rightarrow> (Crashed e, conn)
           | Inr daily_sentiment \<Rightarrow>
               if daily_sentiment = [] then (Skipped, conn)
               else
                 let min_sentiment_date = Min (set (map fst daily_sentiment));
                     max_sentiment_date = Max (set (map fst daily_sentiment));
                     price_data = get_stock_data (yfinance w tk min_sentiment_date max_sentiment_date)
                 in if frame_empty price_data then (Skipped, conn)
                    else case price_rows_by_date price_data of
                           Inl e \<Rightarrow> (Crashed e, conn)
                         | Inr price_rows \<Rightarrow> merge_and_store tk price_rows daily_sentiment conn)"

text \<open>
  The loop over \<open>TICKERS_TO_PROCESS\<close>, from the accumulated frames and the table to the
  accumulated frames and the table, or to the exception that ended the run.
\<close>

fun process_tickers ::
  "world \<Rightarrow> string list \<Rightarrow> combined list list \<Rightarrow> table \<Rightarrow> (py_error + combined list list) \<times> table" where
  "process_tickers w [] all_processed_data conn = (Inr all_processed_data, conn)"
| "process_tickers w (tk # tickers) all_processed_data conn =
     (case process_ticker w conn tk of
        (Skipped, conn') \<Rightarrow> process_tickers w tickers all_processed_data conn'
      | (Processed combined_df, conn') \<Rightarrow>
          process_tickers w tickers (all_processed_data @ [combined_df]) conn'
      | (Crashed e, conn') \<Rightarrow> (Inl e, conn'))"

text \<open>
  A world for the examples: AAPL has a headline on Saturday 6 January 2024 and one on
  Tuesday the 9th, no other ticker has news, and the only price bar between the 6th and the
  9th is Monday's.
\<close>

definition finviz_parsers :: parsers where
  "finviz_parsers =
     \<lparr>strptime = (\<lambda>s. if s = ''Jan-06-24 09:30AM'' then Some \<lparr>day = 6, second_of_day = 34200\<rparr>
                      else if s = ''Jan-09-24 04:00PM'' then Some \<lparr>day = 9, second_of_day = 57600\<rparr>
                      else None),
      strftime = (\<lambda>t. if day t = 6 then ''Jan-06-24'' else ''Jan-09-24'')\<rparr>"

definition weekend_news :: world where
  "weekend_news =
     \<lparr>parsers = finviz_parsers,
      finviz = (\<lambda>tk. if tk = ''AAPL''
                     then Page (Some [[''Jan-06-24 09:30AM'', ''Shares soar''],
                                      [''Jan-09-24 04:00PM'', ''Profit warning'']])
                     else Page (Some [])),
      vader = vader_stub,
      yfinance = (\<lambda>tk start stop. Some [(\<lparr>day = 8, second_of_day = 0\<rparr>, 185)])\<rparr>"

text \<open>
  A second world: AAPL has a headline on Monday 8 January 2024 and one on Tuesday the
  9th, and the only price bar from the 8th up to the 9th is Monday's.
\<close>

definition weekday_parsers :: parsers where
  "weekday_parsers =
     \<lparr>strptime = (\<lambda>s. if s = ''Jan-08-24 10:00AM'' then Some \<lparr>day = 8, second_of_day = 36000\<rparr>
                      else if s = ''Jan-09-24 04:00PM'' then Some \<lparr>day = 9, second_of_day = 57600\<rparr>
                      else None),
      strftime = (\<lambda>t. if day t = 8 then ''Jan-08-24'' else ''Jan-09-24'')\<rparr>"

definition weekday_news :: world where
  "weekday_news =
     \<lparr>parsers = weekday_parsers,
      finviz = (\<lambda>tk. if tk = ''AAPL''
                     then Page (Some [[''Jan-08-24 10:00AM'', ''Shares soar''],
                                      [''Jan-09-24 04:00PM'', ''Profit warning'']])
                     else Page (Some [])),
      vader = vader_stub,
      yfinance = (\<lambda>tk start stop. Some [(\<lparr>day = 8, second_of_day = 0\<rparr>, 185)])\<rparr>"

section \<open>src/analysis.py again: the frames as objects\<close>

text \<open>
  Whether the caller's frame changes depends on which object each statement works on, so
  here the function runs on a store of frame objects. A row of a stored frame has the four
  columns and, when the frame has the column, a cell of \<open>price_change\<close> and of
  \<open>sentiment_lagged\<close> (\<open>None\<close>: the frame has no such column).
\<close>

record frame_row = combined +
  price_change :: "float64 option"
  sentiment_lagged :: "float64 option"

text \<open>
  The store is the list of the frames created so far; a reference is a position in it, and a
  new object takes the next position.
\<close>

type_synonym heap = "frame_row list list"

definition alloc :: "frame_row list \<Rightarrow> heap \<Rightarrow> nat \<times> heap" where
  "alloc frame h = (length h, h @ [frame])"

text \<open>\<open>df['price_change'] = ...\<close> and \<open>df['sentiment_lagged'] = ...\<close> on a frame object.\<close>

definition assign_price_change :: "float64 list \<Rightarrow> frame_row list \<Rightarrow> frame_row list" where
  "assign_price_change col df = map2 (\<lambda>r c. r\<lparr>price_change := Some c\<rparr>) df col"

definition assign_sentiment_lagged :: "float64 list \<Rightarrow> frame_row list \<Rightarrow> frame_row list" where
  "assign_sentiment_lagged col df = map2 (\<lambda>r c. r\<lparr>sentiment_lagged := Some c\<rparr>) df col"

text \<open>
  Reading the columns \<open>sentiment_lagged\<close> and \<open>price_change\<close> of a frame: \<open>KeyError\<close> when
  the frame lacks one of them.
\<close>

definition two_columns :: "frame_row list \<Rightarrow> py_error + (float64 \<times> float64) list" where
  "two_columns df =
     (case those (map sentiment_lagged df) of
        None \<Rightarrow> Inl (KeyError ''sentiment_lagged'')
      | Some s \<Rightarrow>
          (case those (map price_change df) of
             None \<Rightarrow> Inl (KeyError ''price_change'')
           | Some p \<Rightarrow> Inr (zip s p)))"

text \<open>\<open>dropna(subset=['sentiment_lagged', 'price_change'])\<close> on the rows of a frame.\<close>

definition dropna_rows :: "frame_row list \<Rightarrow> frame_row list" where
  "dropna_rows df =
     filter (\<lambda>r. case (sentiment_lagged r, price_change r) of
                   (Some s, Some p) \<Rightarrow> notna s \<and> notna p
                 | _ \<Rightarrow> False) df"

text \<open>
  The function, statement by statement. The parameter \<open>df\<close> is a reference to the caller's
  frame. Line 40 rebinds the local name: \<open>sort_values\<close> returns a new frame and \<open>.copy()\<close>
  another one; lines 44 and 45 (57 and 58) assign the two columns to the object the local
  name now refers to; \<open>dropna\<close> (line 61) returns a new frame again.
\<close>

definition calculate_sentiment_price_correlation_on_heap ::
  "nat \<Rightarrow> int \<Rightarrow> int \<Rightarrow> bool \<Rightarrow> heap \<Rightarrow> (py_error + correlation) \<times> heap" where
  "calculate_sentiment_price_correlation_on_heap df sentiment_lag price_change_lag group_by_ticker h =
     (if h ! df = [] then (Inr (if group_by_ticker then PerTicker [] else Overall NaN), h)
      else
        let (sorted_df, h1) = alloc (sort_values group_by_ticker (h ! df)) h;
            (df, h2) = alloc (h1 ! sorted_df) h1
        in if group_by_ticker then
             let h3 = h2[df := assign_price_change
                                (groupby_transform (pct_change price_change_lag) adj_close (h2 ! df))
                                (h2 ! df)];
                 h4 = h3[df := assign_sentiment_lagged
                                (groupby_transform (shift sentiment_lag) sentiment_score (h3 ! df))
                                (h3 ! df)]
             in (case two_columns (h4 ! df) of
                   Inl e \<Rightarrow> Inl e
                 | Inr cells \<Rightarrow>
                     Inr (PerTicker (map (\<lambda>k. (k, nancorr 1 (group_cells k (h4 ! df) cells)))
                                         (group_keys (h4 ! df)))),
                 h4)
           else
             let h3 = h2[df := assign_price_change
                                (pct_change price_change_lag (map adj_close (h2 ! df))) (h2 ! df)];
                 h4 = h3[df := assign_sentiment_lagged
                                (shift sentiment_lag (map sentiment_score (h3 ! df))) (h3 ! df)];
                 (df_cleaned, h5) = alloc (dropna_rows (h4 ! df)) h4
             in if h5 ! df_cleaned = [] \<or> length (h5 ! df_cleaned) < 2 then (Inr (Overall NaN), h5)
                else (case two_columns (h5 ! df_cleaned) of
                        Inl e \<Rightarrow> Inl e
                      | Inr cells \<Rightarrow> Inr (Overall (series_corr cells)),
                      h5))"

text \<open>
  A store with one object: the rows of scenario A, latest first, without derived columns.
\<close>

definition caller_heap :: heap where
  "caller_heap =
     [map (\<lambda>r. combined.extend r \<lparr>price_change = None, sentiment_lagged = None\<rparr>) (rev scenario_A)]"

section \<open>Properties of the lagged correlation\<close>

subsection \<open>Columns of a group\<close>

lemma length_shift [simp]: "length (shift p xs) = length xs"
  by (simp add: shift_def)

lemma length_pct_change [simp]: "length (pct_change p xs) = length xs"
  by (simp add: pct_change_def)



lemma length_groupby_transform [simp]: "length (groupby_transform f col df) = length df"
  by (simp add: groupby_transform_def)




lemma group_cells_rows: "group_cells k df df = group_rows k df"
  by (induction df) (auto simp: group_cells_def group_rows_def)


lemma set_sort_values [simp]: "set (sort_values b df) = set df"
  by (simp add: sort_values_def)

lemma length_sort_values [simp]: "length (sort_values b df) = length df"
  by (simp add: sort_values_def)

lemma lagged_frame_fst [simp]: "map fst (lagged_frame df sl pl b) = sort_values b df"
  by (simp add: lagged_frame_def Let_def)

lemma lagged_frame_snd_grouped:
  "map snd (lagged_frame df sl pl True) =
     zip (groupby_transform (shift sl) sentiment_score (sort_values True df))
         (groupby_transform (pct_change pl) adj_close (sort_values True df))"
  by (simp add: lagged_frame_def Let_def)


lemma map_of_keyed:
  "map_of (map (\<lambda>k. (k, f k)) ks) k = (if k \<in> set ks then Some (f k) else None)"
  by (induction ks) auto

lemma set_group_keys [simp]: "set (group_keys df) = ticker ` set df"
  by (simp add: group_keys_def)

lemma distinct_group_keys [simp]: "distinct (group_keys df)"
  by (simp add: group_keys_def)

lemma calc_grouped:
  "df \<noteq> [] \<Longrightarrow>
   calculate_sentiment_price_correlation df sl pl True =
     PerTicker (map (\<lambda>k. (k, nancorr 1 (group_cells k (map fst (lagged_frame df sl pl True))
                                                    (map snd (lagged_frame df sl pl True)))))
                    (group_keys (sort_values True df)))"
  by (simp add: calculate_sentiment_price_correlation_def Let_def)

lemma calc_grouped_lookup:
  assumes "k \<in> ticker ` set df"
  shows "\<exists>res. calculate_sentiment_price_correlation df sl pl True = PerTicker res \<and>
           distinct (map fst res) \<and>
           map_of res k = Some (nancorr 1 (group_cells k (map fst (lagged_frame df sl pl True))
                                                     (map snd (lagged_frame df sl pl True))))"
proof -
  let ?g = "\<lambda>k. nancorr 1 (group_cells k (map fst (lagged_frame df sl pl True))
                                        (map snd (lagged_frame df sl pl True)))"
  let ?res = "map (\<lambda>k. (k, ?g k)) (group_keys (sort_values True df))"
  from assms have ne: "df \<noteq> []" by auto
  have 1: "calculate_sentiment_price_correlation df sl pl True = PerTicker ?res"
    by (rule calc_grouped[OF ne])
  have 2: "distinct (map fst ?res)"
    by (simp add: comp_def)
  have 3: "map_of ?res k = Some (?g k)"
    using assms by (simp only: map_of_keyed set_group_keys set_sort_values if_True)
  from 1 2 3 show ?thesis by blast
qed

lemma mean_single [simp]: "mean [x] = x"
  by (simp add: mean_def)

lemma ssqdm_short: "length xs < 2 \<Longrightarrow> ssqdm xs = 0"
proof (cases xs)
  case Nil
  then show ?thesis by (simp add: ssqdm_def)
next
  case (Cons x ys)
  assume "length xs < 2"
  with Cons have "ys = []" by simp
  with Cons show ?thesis by (simp add: ssqdm_def)
qed

lemma pearson_NaN:
  "ssqdm (map fst ps) = 0 \<or> ssqdm (map snd ps) = 0 \<Longrightarrow> pearson ps = NaN"
  by (auto simp: pearson_def)

lemma variance_zero: "xs \<noteq> [] \<Longrightarrow> variance xs = 0 \<longleftrightarrow> ssqdm xs = 0"
  by (simp add: variance_def)

lemma nancorr_undefined:
  assumes "obs = finite_pairs cells"
    and "length obs < 2 \<or> variance (map fst obs) = 0 \<or> variance (map snd obs) = 0"
  shows "nancorr 1 cells = NaN"
proof (cases "length obs < 2")
  case True
  then have "ssqdm (map fst obs) = 0" by (simp add: ssqdm_short)
  then show ?thesis using assms(1) by (simp add: nancorr_def Let_def pearson_NaN)
next
  case False
  then have "map fst obs \<noteq> []" "map snd obs \<noteq> []" by auto
  with False assms(2) have "ssqdm (map fst obs) = 0 \<or> ssqdm (map snd obs) = 0"
    by (simp add: variance_zero del: map_is_Nil_conv)
  then show ?thesis using assms(1) by (simp add: nancorr_def Let_def pearson_NaN)
qed

lemma scenario_A_observations:
  "paired_observations scenario_A 1 1 ''AAPL'' = [(1 / 2, 1 / 100), (1 / 2, - (2 / 101))]"
  by code_simp

subsection \<open>Undefined correlations\<close>

text \<open>
  Claim C1. In the per-ticker mode, for every frame, every pair of lags and every ticker of
  the frame: when the ticker has fewer than two paired observations (a finite lagged
  sentiment together with a finite price change), or when either side of its paired
  observations has zero variance, the function returns normally, the returned Series has
  exactly one item for the ticker, and that item is \<open>NaN\<close>, which is not the number 0.
\<close>

theorem C1_undefined_is_NaN:
  assumes "k \<in> ticker ` set df"
    and "obs = paired_observations df sentiment_lag price_change_lag k"
    and "length obs < 2 \<or> variance (map fst obs) = 0 \<or> variance (map snd obs) = 0"
  shows "\<exists>res. calculate_sentiment_price_correlation df sentiment_lag price_change_lag True
                 = PerTicker res \<and>
               distinct (map fst res) \<and> map_of res k = Some NaN \<and>
               map_of res k \<noteq> Some (Finite 0)"
proof -
  let ?cells = "group_cells k (map fst (lagged_frame df sentiment_lag price_change_lag True))
                              (map snd (lagged_frame df sentiment_lag price_change_lag True))"
  have "obs = finite_pairs ?cells"
    using assms(2) by (simp add: paired_observations_def Let_def)
  then have "nancorr 1 ?cells = NaN"
    using assms(3) by (rule nancorr_undefined)
  with calc_grouped_lookup[OF assms(1), of sentiment_lag price_change_lag]
  show ?thesis by auto
qed

theorem C1_undefined_is_NaN_witness:
  "''AAPL'' \<in> ticker ` set scenario_A \<and>
   variance (map fst (paired_observations scenario_A 1 1 ''AAPL'')) = 0 \<and>
   (\<exists>res. calculate_sentiment_price_correlation scenario_A 1 1 True = PerTicker res \<and>
          map_of res ''AAPL'' = Some NaN)"
proof -
  have k: "''AAPL'' \<in> ticker ` set scenario_A"
    by (simp add: scenario_A_def)
  have v: "variance (map fst (paired_observations scenario_A 1 1 ''AAPL'')) = 0"
    by (simp add: scenario_A_observations variance_def ssqdm_def mean_def)
  from C1_undefined_is_NaN[OF k refl, of 1 1] v k show ?thesis
    by blast
qed

subsection \<open>Lagged features\<close>




lemma set_finite_pairs: "(x, y) \<in> set (finite_pairs cs) \<longleftrightarrow> (Finite x, Finite y) \<in> set cs"
  by (induction cs rule: finite_pairs.induct) auto












subsection \<open>Permutations of the input rows\<close>

lemma sort_values_permutation:
  assumes "mset df' = mset df"
    and "if b then distinct (map (\<lambda>r. (ticker r, date r)) df) else distinct (map date df)"
  shows "sort_values b df' = sort_values b df"
proof (cases b)
  case True
  with assms(2) have "inj_on (\<lambda>r. (ticker r, date r)) (set df')"
    using assms(1) by (metis distinct_map mset_eq_setD)
  with assms(1) True show ?thesis
    by (simp add: sort_values_def sort_key_eq_sort_key)
next
  case False
  with assms(2) have "inj_on date (set df')"
    using assms(1) by (metis distinct_map mset_eq_setD)
  with assms(1) False show ?thesis
    by (simp add: sort_values_def sort_key_eq_sort_key)
qed

lemma calc_depends_on_sorted:
  assumes "sort_values b df' = sort_values b df"
  shows "calculate_sentiment_price_correlation df' sl pl b =
         calculate_sentiment_price_correlation df sl pl b"
proof -
  have "length df' = length df"
    using assms by (metis length_sort_values)
  then have "df' = [] \<longleftrightarrow> df = []" by auto
  moreover have "lagged_frame df' sl pl b = lagged_frame df sl pl b"
    using assms by (simp add: lagged_frame_def)
  ultimately show ?thesis
    by (simp add: calculate_sentiment_price_correlation_def)
qed

lemma pooled_frame:
  "map snd (lagged_frame pooled_rows 1 1 False) =
     [(NaN, NaN), (Finite (1 / 10), Finite 1), (Finite (1 / 2), Finite 1)]"
  by code_simp

lemma pooled_frame_permuted:
  "map snd (lagged_frame pooled_rows_permuted 1 1 False) =
     [(NaN, NaN), (Finite (1 / 2), Finite (- (1 / 2))), (Finite (1 / 10), Finite 3)]"
  by code_simp

lemma calc_pooled:
  "df \<noteq> [] \<Longrightarrow>
   calculate_sentiment_price_correlation df sl pl False =
     (let df_cleaned = dropna (map snd (lagged_frame df sl pl False))
      in if df_cleaned = [] \<or> length df_cleaned < 2 then Overall NaN
         else Overall (series_corr df_cleaned))"
  by (simp add: calculate_sentiment_price_correlation_def Let_def)

lemma pooled_result:
  "calculate_sentiment_price_correlation pooled_rows 1 1 False = Overall NaN"
proof -
  have ne: "pooled_rows \<noteq> []" by (simp add: pooled_rows_def)
  show ?thesis
    unfolding calc_pooled[OF ne] pooled_frame
    by (simp add: dropna_def series_corr_def pearson_def ssqdm_def mean_def)
qed

lemma pooled_result_permuted:
  "calculate_sentiment_price_correlation pooled_rows_permuted 1 1 False = Overall (Finite (- 1))"
proof -
  have ne: "pooled_rows_permuted \<noteq> []" by (simp add: pooled_rows_permuted_def)
  have "sqrt (49 / 100) = 7 / 10"
    by (rule real_sqrt_unique) (simp_all add: power2_eq_square)
  then show ?thesis
    unfolding calc_pooled[OF ne] pooled_frame_permuted
    by (simp add: dropna_def series_corr_def pearson_def ssqdm_def mean_def covxy_def
        power2_eq_square)
qed


text \<open>
  Claim C9, as stated, quantifies over every call. In the pooled mode
  (\<open>group_by_ticker=False\<close>) the frame is sorted by date alone, so two rows of different
  tickers on one date keep the order the caller gave them: on \<open>pooled_rows\<close> the result is
  \<open>NaN\<close> (both price changes are 1), and on the same rows with the first two swapped it is
  the number -1, although the (ticker, date) pairs are unique.
\<close>

theorem C9_pooled_counterexample:
  "mset pooled_rows_permuted = mset pooled_rows \<and>
   unique_ticker_dates pooled_rows \<and>
   calculate_sentiment_price_correlation pooled_rows 1 1 False = Overall NaN \<and>
   calculate_sentiment_price_correlation pooled_rows_permuted 1 1 False = Overall (Finite (- 1))"
  by (simp add: pooled_result pooled_result_permuted)
     (simp add: pooled_rows_def pooled_rows_permuted_def unique_ticker_dates_def)


text \<open>
  Claim C9, amended. For every frame and every permutation of its rows: with
  \<open>group_by_ticker=True\<close> (the default, and the mode the pipeline uses) and unique
  (ticker, date) pairs the result is the same, because the rows are sorted by ticker and
  date first; with \<open>group_by_ticker=False\<close> the result is the same when the dates are
  unique, because the rows are sorted by date.
\<close>

theorem C9_permutation_invariant:
  assumes "mset df' = mset df"
  shows "(unique_ticker_dates df \<longrightarrow>
            calculate_sentiment_price_correlation df' sl pl True =
            calculate_sentiment_price_correlation df sl pl True) \<and>
         (distinct (map date df) \<longrightarrow>
            calculate_sentiment_price_correlation df' sl pl False =
            calculate_sentiment_price_correlation df sl pl False)"
  using assms
  by (auto simp: unique_ticker_dates_def intro!: calc_depends_on_sorted sort_values_permutation)


theorem C9_permutation_invariant_witness:
  "mset pooled_rows_permuted = mset pooled_rows \<and>
   unique_ticker_dates pooled_rows \<and>
   calculate_sentiment_price_correlation pooled_rows_permuted 1 1 True =
   calculate_sentiment_price_correlation pooled_rows 1 1 True \<and>
   mset (rev scenario_A) = mset scenario_A \<and> distinct (map date scenario_A) \<and>
   calculate_sentiment_price_correlation (rev scenario_A) 1 1 False =
   calculate_sentiment_price_correlation scenario_A 1 1 False"
proof -
  have 1: "mset pooled_rows_permuted = mset pooled_rows"
    by (simp add: pooled_rows_def pooled_rows_permuted_def)
  have 2: "unique_ticker_dates pooled_rows"
    by (simp add: pooled_rows_def unique_ticker_dates_def)
  have 3: "mset (rev scenario_A) = mset scenario_A" by simp
  have 4: "distinct (map date scenario_A)" by (simp add: scenario_A_def)
  from C9_permutation_invariant[OF 1, of 1 1] C9_permutation_invariant[OF 3, of 1 1] 1 2 3 4
  show ?thesis by blast
qed

section \<open>Properties of the daily sentiment\<close>

subsection \<open>When the scoring returns and when it raises\<close>

lemma apply_analyze_sentiment_returns:
  assumes "analyzer = None \<or> (\<forall>c\<in>set cells. c \<noteq> None)"
  shows "apply_analyze_sentiment analyzer cells =
           Inr (map (\<lambda>c. case c of None \<Rightarrow> None | Some text \<Rightarrow> analyze_sentiment analyzer text) cells)"
  using assms by (induction cells) (auto simp: score_cell_def split: option.splits)

lemma apply_analyze_sentiment_raises:
  assumes "analyzer \<noteq> None" and "None \<in> set cells"
  shows "apply_analyze_sentiment analyzer cells = Inl TypeError"
  using assms by (induction cells) (auto simp: score_cell_def split: option.splits sum.splits)

lemma frame_rows_scored:
  "rows_with_date (dropna_scores (zip (map (\<lambda>h. map_option day (datetime h)) hs)
       (map (\<lambda>c. case c of None \<Rightarrow> None | Some text \<Rightarrow> analyze_sentiment analyzer text)
            (map headline hs))))
     = scored_headlines analyzer hs"
  by (induction hs)
     (auto simp: rows_with_date_def dropna_scores_def scored_headlines_def split: option.splits)

lemma rows_with_date_Nil [simp]: "rows_with_date [] = []"
  by (simp add: rows_with_date_def)

lemma groupby_mean_Nil [simp]: "groupby_mean [] = []"
  by (simp add: groupby_mean_def)

lemma scored_headlines_no_column:
  assumes "hs = [] \<or> \<not> list_ex (\<lambda>h. datetime h \<noteq> None) hs \<or> \<not> list_ex (\<lambda>h. headline h \<noteq> None) hs"
  shows "scored_headlines analyzer hs = []"
  using assms by (auto simp: scored_headlines_def list_ex_iff split: option.splits)

text \<open>
  When there is no analyzer, or every record has a text, \<open>get_daily_sentiment\<close> returns,
  and returns the means by date of the scored headlines.
\<close>

lemma get_daily_sentiment_returns:
  assumes "analyzer = None \<or> (\<forall>h\<in>set hs. headline h \<noteq> None)"
  shows "get_daily_sentiment analyzer hs = Inr (groupby_mean (scored_headlines analyzer hs))"
proof -
  have cells: "analyzer = None \<or> (\<forall>c\<in>set (map headline hs). c \<noteq> None)"
    using assms by auto
  show ?thesis
  proof (cases "hs = [] \<or> \<not> list_ex (\<lambda>h. datetime h \<noteq> None) hs \<or>
                \<not> list_ex (\<lambda>h. headline h \<noteq> None) hs")
    case True
    then show ?thesis
      by (auto simp: get_daily_sentiment_def scored_headlines_no_column)
  next
    case False
    then show ?thesis
      unfolding get_daily_sentiment_def Let_def apply_analyze_sentiment_returns[OF cells]
      using frame_rows_scored[of hs analyzer] by auto
  qed
qed

text \<open>
  When there is an analyzer and the columns \<open>datetime\<close> and \<open>headline\<close> exist, a single
  record without the \<open>headline\<close> key makes \<open>get_daily_sentiment\<close> raise.
\<close>

lemma get_daily_sentiment_raises:
  assumes "analyzer \<noteq> None" and "ha \<in> set hs" and "headline ha = None"
    and "hb \<in> set hs" and "headline hb \<noteq> None" and "hc \<in> set hs" and "datetime hc \<noteq> None"
  shows "get_daily_sentiment analyzer hs = Inl TypeError"
proof -
  have "None \<in> set (map headline hs)"
    using assms(2,3) by force
  then have "apply_analyze_sentiment analyzer (map headline hs) = Inl TypeError"
    using assms(1) by (rule apply_analyze_sentiment_raises[rotated])
  moreover have "hs \<noteq> []" "list_ex (\<lambda>h. datetime h \<noteq> None) hs" "list_ex (\<lambda>h. headline h \<noteq> None) hs"
    using assms by (auto simp: list_ex_iff)
  ultimately show ?thesis
    by (simp add: get_daily_sentiment_def)
qed

lemma missing_key_raises: "get_daily_sentiment vader_stub missing_key = Inl TypeError"
  by (rule get_daily_sentiment_raises[where
        ha = "\<lparr>datetime = Some \<lparr>day = 5, second_of_day = 61200\<rparr>, headline = None\<rparr>" and
        hb = "\<lparr>datetime = Some \<lparr>day = 5, second_of_day = 34200\<rparr>, headline = Some ''Shares soar''\<rparr>" and
        hc = "\<lparr>datetime = Some \<lparr>day = 5, second_of_day = 34200\<rparr>, headline = Some ''Shares soar''\<rparr>"])
     (simp_all add: missing_key_def vader_stub_def)

lemma missing_key_without_analyzer: "get_daily_sentiment None missing_key = Inr []"
  by (simp add: get_daily_sentiment_returns scored_headlines_def missing_key_def
      analyze_sentiment_def)

subsection \<open>The means by date\<close>


lemma groupby_mean_keys:
  "distinct (map fst (groupby_mean rows))" "sorted (map fst (groupby_mean rows))"
  "set (map fst (groupby_mean rows)) = fst ` set rows"
  by (simp_all add: groupby_mean_def comp_def)


lemma scores_on_nonempty: "d \<in> fst ` set rows \<Longrightarrow> scores_on d rows \<noteq> []"
  by (auto simp: scores_on_def filter_empty_conv)

lemma set_scores_on: "s \<in> set (scores_on d rows) \<longleftrightarrow> (d, s) \<in> set rows"
  by (force simp: scores_on_def)

lemma sum_list_bounded:
  fixes xs :: "real list"
  assumes "\<And>x. x \<in> set xs \<Longrightarrow> lo \<le> x \<and> x \<le> hi"
  shows "lo * real (length xs) \<le> sum_list xs \<and> sum_list xs \<le> hi * real (length xs)"
  using assms by (induction xs) (auto simp: algebra_simps add_mono)

lemma mean_bounded:
  fixes xs :: "real list"
  assumes "xs \<noteq> []" and b: "\<And>x. x \<in> set xs \<Longrightarrow> lo \<le> x \<and> x \<le> hi"
  shows "lo \<le> mean xs \<and> mean xs \<le> hi"
proof -
  have n: "0 < real (length xs)" using assms(1) by simp
  from sum_list_bounded[OF b] n show ?thesis
    by (simp add: mean_def pos_le_divide_eq pos_divide_le_eq)
qed

lemma groupby_mean_member:
  "(d, v) \<in> set (groupby_mean rows) \<longleftrightarrow> d \<in> fst ` set rows \<and> v = mean (scores_on d rows)"
  by (auto simp: groupby_mean_def scores_on_def)


lemma two_days_scored:
  "scored_headlines vader_stub two_days = [(5, 4 / 5), (4, - (1 / 2)), (5, 0)]"
  by (simp add: scored_headlines_def two_days_def analyze_sentiment_def vader_stub_def)

lemma two_days_daily:
  "get_daily_sentiment vader_stub two_days = Inr [(4, - (1 / 2)), (5, 2 / 5)]"
proof -
  have "\<forall>h\<in>set two_days. headline h \<noteq> None"
    by (simp add: two_days_def)
  then show ?thesis
    by (simp add: get_daily_sentiment_returns two_days_scored groupby_mean_def mean_def)
qed

text \<open>
  Claim C4. For every list of headlines that all have a text (or when there is no
  analyzer) and whose scores lie in \<open>[-1, 1]\<close>, the scored headlines of the specification:
  \<open>get_daily_sentiment\<close> returns a series that has exactly one item per distinct date of a
  scored headline (its dates are distinct and are exactly those dates), in which every
  value is the arithmetic mean of the scores of its date, of which there is at least one,
  and lies in \<open>[-1, 1]\<close>; and an empty input gives an empty series, not an exception.
\<close>

theorem C4_daily_mean:
  assumes "analyzer = None \<or> (\<forall>h\<in>set hs. headline h \<noteq> None)"
    and "\<forall>p\<in>set (scored_headlines analyzer hs). - 1 \<le> snd p \<and> snd p \<le> 1"
  shows "(\<exists>daily. get_daily_sentiment analyzer hs = Inr daily \<and>
            distinct (map fst daily) \<and>
            set (map fst daily) = fst ` set (scored_headlines analyzer hs) \<and>
            (\<forall>d v. (d, v) \<in> set daily \<longrightarrow>
               scores_on d (scored_headlines analyzer hs) \<noteq> [] \<and>
               v = sum_list (scores_on d (scored_headlines analyzer hs))
                   / real (length (scores_on d (scored_headlines analyzer hs))) \<and>
               - 1 \<le> v \<and> v \<le> 1)) \<and>
         get_daily_sentiment analyzer [] = Inr []"
proof -
  let ?rows = "scored_headlines analyzer hs"
  let ?daily = "groupby_mean ?rows"
  have ret: "get_daily_sentiment analyzer hs = Inr ?daily"
    using assms(1) by (rule get_daily_sentiment_returns)
  have keys: "distinct (map fst ?daily)" "set (map fst ?daily) = fst ` set ?rows"
    by (simp_all only: groupby_mean_keys)
  have vals: "scores_on d ?rows \<noteq> [] \<and>
            v = sum_list (scores_on d ?rows) / real (length (scores_on d ?rows)) \<and>
            - 1 \<le> v \<and> v \<le> 1"
    if "(d, v) \<in> set ?daily" for d v
  proof -
    from that have d: "d \<in> fst ` set ?rows" and v: "v = mean (scores_on d ?rows)"
      by (simp_all add: groupby_mean_member)
    have ne: "scores_on d ?rows \<noteq> []" using d by (rule scores_on_nonempty)
    have "- 1 \<le> x \<and> x \<le> 1" if "x \<in> set (scores_on d ?rows)" for x
      using that assms(2) by (force simp: set_scores_on)
    then have "- 1 \<le> mean (scores_on d ?rows) \<and> mean (scores_on d ?rows) \<le> 1"
      by (rule mean_bounded[OF ne])
    with ne v show ?thesis by (simp add: mean_def)
  qed
  have "get_daily_sentiment analyzer [] = Inr []"
    by (simp add: get_daily_sentiment_def)
  with ret keys vals show ?thesis by blast
qed

theorem C4_daily_mean_witness:
  "scored_headlines vader_stub two_days = [(5, 4 / 5), (4, - (1 / 2)), (5, 0)] \<and>
   get_daily_sentiment vader_stub two_days = Inr [(4, - (1 / 2)), (5, 2 / 5)] \<and>
   (2 / 5 :: real) = sum_list (scores_on 5 (scored_headlines vader_stub two_days))
                     / real (length (scores_on 5 (scored_headlines vader_stub two_days))) \<and>
   - 1 \<le> (2 / 5 :: real) \<and> (2 / 5 :: real) \<le> 1"
proof -
  have keys: "vader_stub = None \<or> (\<forall>h\<in>set two_days. headline h \<noteq> None)"
    by (simp add: two_days_def)
  have range: "\<forall>p\<in>set (scored_headlines vader_stub two_days). - 1 \<le> snd p \<and> snd p \<le> 1"
    by (simp add: two_days_scored)
  from C4_daily_mean[OF keys range]
  have "\<exists>daily. get_daily_sentiment vader_stub two_days = Inr daily \<and>
            distinct (map fst daily) \<and>
            set (map fst daily) = fst ` set (scored_headlines vader_stub two_days) \<and>
            (\<forall>d v. (d, v) \<in> set daily \<longrightarrow>
               scores_on d (scored_headlines vader_stub two_days) \<noteq> [] \<and>
               v = sum_list (scores_on d (scored_headlines vader_stub two_days))
                   / real (length (scores_on d (scored_headlines vader_stub two_days))) \<and>
               - 1 \<le> v \<and> v \<le> 1)"
    by (rule conjunct1)
  then obtain daily where all:
    "get_daily_sentiment vader_stub two_days = Inr daily \<and>
            distinct (map fst daily) \<and>
            set (map fst daily) = fst ` set (scored_headlines vader_stub two_days) \<and>
            (\<forall>d v. (d, v) \<in> set daily \<longrightarrow>
               scores_on d (scored_headlines vader_stub two_days) \<noteq> [] \<and>
               v = sum_list (scores_on d (scored_headlines vader_stub two_days))
                   / real (length (scores_on d (scored_headlines vader_stub two_days))) \<and>
               - 1 \<le> v \<and> v \<le> 1)" ..
  from all have d: "get_daily_sentiment vader_stub two_days = Inr daily"
    by (rule conjunct1)
  then have daily: "daily = [(4, - (1 / 2)), (5, 2 / 5)]"
    by (simp add: two_days_daily)
  then have m: "(5, 2 / 5) \<in> set daily" by simp
  note v = all[THEN conjunct2, THEN conjunct2, THEN conjunct2, rule_format, OF m]
  from v have "(2 / 5 :: real) = sum_list (scores_on 5 (scored_headlines vader_stub two_days))
                     / real (length (scores_on 5 (scored_headlines vader_stub two_days)))"
    and "- 1 \<le> (2 / 5 :: real)" and "(2 / 5 :: real) \<le> 1"
    by (rule conjunct2[THEN conjunct1], rule conjunct2[THEN conjunct2, THEN conjunct1],
        rule conjunct2[THEN conjunct2, THEN conjunct2])
  then show ?thesis
    by (simp add: two_days_scored two_days_daily)
qed




text \<open>
  Claim C10. For every input that is empty, or in which no record has the \<open>datetime\<close> key,
  or in which no record has the \<open>headline\<close> key, \<open>get_daily_sentiment\<close> returns the empty
  series; the function has no raising branch on such input.
\<close>

theorem C10_empty_series:
  assumes "hs = [] \<or> (\<forall>h\<in>set hs. datetime h = None) \<or> (\<forall>h\<in>set hs. headline h = None)"
  shows "get_daily_sentiment analyzer hs = Inr []"
  using assms by (auto simp: get_daily_sentiment_def list_ex_iff)

theorem C10_empty_series_witness:
  "get_daily_sentiment vader_stub [] = Inr [] \<and>
   get_daily_sentiment vader_stub [\<lparr>datetime = None, headline = Some ''Shares soar''\<rparr>] = Inr [] \<and>
   get_daily_sentiment vader_stub
     [\<lparr>datetime = Some \<lparr>day = 5, second_of_day = 0\<rparr>, headline = None\<rparr>] = Inr []"
proof -
  have "get_daily_sentiment vader_stub [] = Inr []"
    by (rule C10_empty_series) simp
  moreover have "get_daily_sentiment vader_stub [\<lparr>datetime = None, headline = Some ''Shares soar''\<rparr>] = Inr []"
    by (rule C10_empty_series) simp
  moreover have "get_daily_sentiment vader_stub
     [\<lparr>datetime = Some \<lparr>day = 5, second_of_day = 0\<rparr>, headline = None\<rparr>] = Inr []"
    by (rule C10_empty_series) simp
  ultimately show ?thesis by simp
qed

section \<open>Properties of the upsert\<close>

declare paginate.simps [simp del]

lemma foldl_upsert_other:
  "k \<notin> conflict_key ` set rows \<Longrightarrow> foldl upsert_row tbl rows k = tbl k"
  by (induction rows arbitrary: tbl) (auto simp: upsert_row_def)

lemma foldl_upsert_member:
  "distinct (map conflict_key rows) \<Longrightarrow> r \<in> set rows \<Longrightarrow>
     foldl upsert_row tbl rows (conflict_key r) = Some (adj_close r, sentiment_score r)"
proof (induction rows arbitrary: tbl)
  case Nil
  then show ?case by simp
next
  case (Cons x xs)
  show ?case
  proof (cases "r = x")
    case True
    with Cons.prems have "conflict_key x \<notin> conflict_key ` set xs" by auto
    then have "foldl upsert_row (upsert_row tbl x) xs (conflict_key x)
                 = upsert_row tbl x (conflict_key x)"
      by (rule foldl_upsert_other)
    moreover have "upsert_row tbl x (conflict_key x) = Some (adj_close x, sentiment_score x)"
      by (simp add: upsert_row_def)
    ultimately show ?thesis using True by simp
  next
    case False
    with Cons show ?thesis by auto
  qed
qed

lemma run_pages_paginate:
  "distinct (map conflict_key rows) \<Longrightarrow>
     run_pages tbl (paginate n rows) = (if n = 0 then Inr tbl else Inr (foldl upsert_row tbl rows))"
proof (induction n rows arbitrary: tbl rule: paginate.induct)
  case (1 n xs)
  show ?case
  proof (cases "xs = [] \<or> n = 0")
    case True
    then show ?thesis by (auto simp: paginate.simps[of n xs])
  next
    case False
    have d1: "distinct (map conflict_key (take n xs))"
      using "1.prems" by (simp add: distinct_take flip: take_map)
    have d2: "distinct (map conflict_key (drop n xs))"
      using "1.prems" by (simp add: distinct_drop flip: drop_map)
    have "foldl upsert_row (foldl upsert_row tbl (take n xs)) (drop n xs) = foldl upsert_row tbl xs"
      by (metis append_take_drop_id foldl_append)
    with False d1 "1.IH"[OF False d2] show ?thesis
      by (simp add: paginate.simps[of n xs] insert_on_conflict_update_def)
  qed
qed

lemma insert_sentiment_data_distinct:
  "distinct (map conflict_key rows) \<Longrightarrow> insert_sentiment_data tbl rows = foldl upsert_row tbl rows"
  by (simp add: insert_sentiment_data_def execute_values_def run_pages_paginate)

text \<open>
  A batch that names one key twice inside a page is refused by the database and rolled
  back: nothing of it is stored.
\<close>

lemma duplicate_key_batch_rolls_back:
  "insert_sentiment_data stored_before (scenario_A @ scenario_A) = stored_before"
  by (simp add: insert_sentiment_data_def execute_values_def paginate.simps[of _ "_ # _"]
      paginate.simps[of _ "[]"] insert_on_conflict_update_def scenario_A_def conflict_key_def)

lemma upsert_batch:
  assumes "distinct (map conflict_key rows)"
  shows "insert_sentiment_data (insert_sentiment_data tbl rows) rows = insert_sentiment_data tbl rows \<and>
         (\<forall>r\<in>set rows. insert_sentiment_data tbl rows (ticker r, date r)
                          = Some (adj_close r, sentiment_score r)) \<and>
         (\<forall>k. k \<notin> conflict_key ` set rows \<longrightarrow> insert_sentiment_data tbl rows k = tbl k)"
proof -
  let ?once = "foldl upsert_row tbl rows"
  have mem: "\<And>t r. r \<in> set rows \<Longrightarrow> foldl upsert_row t rows (conflict_key r) = Some (adj_close r, sentiment_score r)"
    using assms by (rule foldl_upsert_member)
  have "foldl upsert_row ?once rows k = ?once k" for k
  proof (cases "k \<in> conflict_key ` set rows")
    case True
    then obtain r where "r \<in> set rows" "k = conflict_key r" by auto
    then show ?thesis by (simp add: mem)
  next
    case False
    then show ?thesis by (simp add: foldl_upsert_other)
  qed
  then have "foldl upsert_row ?once rows = ?once" by (rule ext)
  moreover have "\<forall>r\<in>set rows. ?once (ticker r, date r) = Some (adj_close r, sentiment_score r)"
    using mem[of _ tbl] by (simp add: conflict_key_def)
  ultimately show ?thesis
    using assms by (simp add: insert_sentiment_data_distinct foldl_upsert_other)
qed

text \<open>
  Claim C7. For every table and every combined record: upserting the record a second time
  leaves the table as the first upsert left it, and after the upsert the row stored under
  the record's (ticker, date) holds the record's price and sentiment, whatever was stored
  under that key before (the last write wins). The same holds for a batch of records with
  one row per (ticker, date), as the pipeline builds them: a second upsert of the batch
  changes nothing, every record of the batch is stored under its key, and every other key
  is untouched.
\<close>

theorem C7_upsert_idempotent:
  "insert_sentiment_data (insert_sentiment_data tbl [r]) [r] = insert_sentiment_data tbl [r] \<and>
   insert_sentiment_data tbl [r] (ticker r, date r) = Some (adj_close r, sentiment_score r) \<and>
   (distinct (map conflict_key rows) \<longrightarrow>
      insert_sentiment_data (insert_sentiment_data tbl rows) rows = insert_sentiment_data tbl rows \<and>
      (\<forall>r\<in>set rows. insert_sentiment_data tbl rows (ticker r, date r)
                       = Some (adj_close r, sentiment_score r)) \<and>
      (\<forall>k. k \<notin> conflict_key ` set rows \<longrightarrow> insert_sentiment_data tbl rows k = tbl k))"
proof -
  have "distinct (map conflict_key [r])" by simp
  from upsert_batch[OF this, of tbl]
  have "insert_sentiment_data (insert_sentiment_data tbl [r]) [r] = insert_sentiment_data tbl [r]"
    "insert_sentiment_data tbl [r] (ticker r, date r) = Some (adj_close r, sentiment_score r)"
    by simp_all
  then show ?thesis using upsert_batch[of rows tbl] by blast
qed

theorem C7_upsert_idempotent_witness:
  "insert_sentiment_data
     (insert_sentiment_data stored_before
        [\<lparr>ticker = ''AAPL'', date = 2, adj_close = 101, sentiment_score = 1 / 2\<rparr>])
     [\<lparr>ticker = ''AAPL'', date = 2, adj_close = 101, sentiment_score = 1 / 2\<rparr>]
   = insert_sentiment_data stored_before
       [\<lparr>ticker = ''AAPL'', date = 2, adj_close = 101, sentiment_score = 1 / 2\<rparr>] \<and>
   stored_before (''AAPL'', 2) = Some (7, 0) \<and>
   insert_sentiment_data stored_before
     [\<lparr>ticker = ''AAPL'', date = 2, adj_close = 101, sentiment_score = 1 / 2\<rparr>] (''AAPL'', 2)
   = Some (101, 1 / 2) \<and>
   distinct (map conflict_key scenario_A) \<and>
   insert_sentiment_data (insert_sentiment_data stored_before scenario_A) scenario_A =
     insert_sentiment_data stored_before scenario_A \<and>
   insert_sentiment_data stored_before scenario_A (''AAPL'', 3) = Some (99, - (1 / 5))"
proof -
  let ?r = "\<lparr>ticker = ''AAPL'', date = 2, adj_close = 101, sentiment_score = 1 / 2\<rparr>"
  have d: "distinct (map conflict_key scenario_A)"
    by (simp add: scenario_A_def conflict_key_def)
  have m: "\<lparr>ticker = ''AAPL'', date = 3, adj_close = 99, sentiment_score = - (1 / 5)\<rparr> \<in> set scenario_A"
    by (simp add: scenario_A_def)
  note C = C7_upsert_idempotent[of stored_before ?r scenario_A]
  from C have "insert_sentiment_data (insert_sentiment_data stored_before [?r]) [?r]
                 = insert_sentiment_data stored_before [?r]"
    "insert_sentiment_data stored_before [?r] (''AAPL'', 2) = Some (101, 1 / 2)"
    by simp_all
  moreover from C d m
  have "insert_sentiment_data (insert_sentiment_data stored_before scenario_A) scenario_A =
     insert_sentiment_data stored_before scenario_A"
    "insert_sentiment_data stored_before scenario_A (''AAPL'', 3) = Some (99, - (1 / 5))"
    by force+
  ultimately show ?thesis using d by (simp add: stored_before_def)
qed

section \<open>Properties of the pipeline\<close>

subsection \<open>The join on the date\<close>

lemma set_merge_on_date:
  "(d, p, s) \<in> set (merge_on_date P S) \<longleftrightarrow> (d, p) \<in> set P \<and> (d, s) \<in> set S"
  by (force simp: merge_on_date_def)

lemma set_combine_rows:
  "r \<in> set (combine_rows tk P S) \<longleftrightarrow>
     ticker r = tk \<and> (date r, adj_close r) \<in> set P \<and> (date r, sentiment_score r) \<in> set S"
proof
  assume "r \<in> set (combine_rows tk P S)"
  then obtain m where m: "m \<in> set (merge_on_date P S)"
    and r: "r = \<lparr>ticker = tk, date = fst m, adj_close = fst (snd m), sentiment_score = snd (snd m)\<rparr>"
    by (auto simp: combine_rows_def)
  obtain d p s where "m = (d, p, s)" by (cases m)
  with m r show "ticker r = tk \<and> (date r, adj_close r) \<in> set P \<and> (date r, sentiment_score r) \<in> set S"
    by (simp add: set_merge_on_date)
next
  assume a: "ticker r = tk \<and> (date r, adj_close r) \<in> set P \<and> (date r, sentiment_score r) \<in> set S"
  then have "(date r, adj_close r, sentiment_score r) \<in> set (merge_on_date P S)"
    by (simp add: set_merge_on_date)
  moreover have "r = \<lparr>ticker = tk, date = date r, adj_close = adj_close r,
                      sentiment_score = sentiment_score r\<rparr>"
    using a by simp
  ultimately show "r \<in> set (combine_rows tk P S)"
    unfolding combine_rows_def set_map
    by (intro image_eqI[where x = "(date r, adj_close r, sentiment_score r)"]) simp_all
qed

lemma dates_combine_rows:
  "date ` set (combine_rows tk P S) = fst ` set P \<inter> fst ` set S"
proof (intro equalityI subsetI)
  fix d assume "d \<in> date ` set (combine_rows tk P S)"
  then obtain r where "r \<in> set (combine_rows tk P S)" "d = date r" by auto
  then show "d \<in> fst ` set P \<inter> fst ` set S"
    by (force simp: set_combine_rows)
next
  fix d assume "d \<in> fst ` set P \<inter> fst ` set S"
  then obtain p s where ps: "(d, p) \<in> set P" "(d, s) \<in> set S" by auto
  let ?r = "\<lparr>ticker = tk, date = d, adj_close = p, sentiment_score = s\<rparr>"
  have "?r \<in> set (combine_rows tk P S)" using ps by (simp add: set_combine_rows)
  then have "date ?r \<in> date ` set (combine_rows tk P S)" by (rule imageI)
  then show "d \<in> date ` set (combine_rows tk P S)" by simp
qed

text \<open>
  The merge step by itself, lines 97 to 102: for every price series and every
  daily-sentiment series, the dates of the merged rows are exactly the dates present in
  both; every merged row carries the ticker, a price of its date and the sentiment of its
  date; and when no date is in both, the merge is empty and the step skips the ticker,
  leaving the table as it was.
\<close>

lemma merge_step_inner_join:
  "set (map date (combine_rows tk P S)) = fst ` set P \<inter> fst ` set S \<and>
   (\<forall>r\<in>set (combine_rows tk P S).
      ticker r = tk \<and> (date r, adj_close r) \<in> set P \<and> (date r, sentiment_score r) \<in> set S) \<and>
   (fst ` set P \<inter> fst ` set S = {} \<longrightarrow>
      combine_rows tk P S = [] \<and> merge_and_store tk P S conn = (Skipped, conn))"
proof -
  have "combine_rows tk P S = []" if "fst ` set P \<inter> fst ` set S = {}"
    using that dates_combine_rows[of tk P S] by simp
  then show ?thesis
    by (simp add: dates_combine_rows set_combine_rows merge_and_store_def)
qed

subsection \<open>The pass of the loop over one ticker\<close>

text \<open>
  The scraper writes both keys into every record, so the daily sentiment of scraped
  headlines never raises.
\<close>

lemma parse_rows_keys:
  "h \<in> set (parse_rows ps last_date_str rows) \<Longrightarrow> datetime h \<noteq> None \<and> headline h \<noteq> None"
proof (induction rows arbitrary: last_date_str)
  case Nil
  then show ?case by simp
next
  case (Cons cells rows)
  then show ?case
    by (auto split: list.splits option.splits if_splits)
qed

lemma scraped_headlines_keys:
  "h \<in> set (scrape_finviz_headlines ps resp) \<Longrightarrow> datetime h \<noteq> None \<and> headline h \<noteq> None"
  using parse_rows_keys[of h ps None]
  by (auto simp: scrape_finviz_headlines_def split: response.splits option.splits)

lemma scraped_daily_returns:
  "get_daily_sentiment analyzer (scrape_finviz_headlines ps resp) =
     Inr (groupby_mean (scored_headlines analyzer (scrape_finviz_headlines ps resp)))"
  by (rule get_daily_sentiment_returns) (simp add: scraped_headlines_keys)

text \<open>
  A ticker without headlines, without daily sentiment or without prices is skipped.
\<close>

lemma get_stock_data_no_date_column: "date_column (get_stock_data history) = None"
  by (auto simp: get_stock_data_def empty_frame_def split: option.splits)

lemma get_stock_data_index:
  "index_type (get_stock_data history) \<noteq> DatetimeIndex \<and> index_name (get_stock_data history) = None"
  by (auto simp: get_stock_data_def empty_frame_def split: option.splits)

lemma price_rows_by_date_needs_date:
  "date_column f = None \<Longrightarrow> index_name f \<noteq> Some ''date'' \<Longrightarrow>
     price_rows_by_date f = Inl (KeyError ''date'')"
  by (simp add: price_rows_by_date_def reset_index_def)

lemma price_rows_by_date_fetched:
  "price_rows_by_date (get_stock_data history) = Inl (KeyError ''date'')"
  by (simp add: price_rows_by_date_def get_stock_data_index get_stock_data_no_date_column)

lemma process_ticker_skips:
  assumes "headlines = scrape_finviz_headlines (parsers w) (finviz w tk)"
    and "get_daily_sentiment (vader w) headlines = Inr daily"
    and "headlines = [] \<or> daily = [] \<or>
         frame_empty (get_stock_data (yfinance w tk (Min (set (map fst daily))) (Max (set (map fst daily)))))"
  shows "process_ticker w conn tk = (Skipped, conn)"
  using assms by (auto simp: process_ticker_def Let_def)

text \<open>
  But whenever headlines, daily sentiment and prices are all there, the pass ends at line
  93: the frame of \<open>get_stock_data\<close> has an unnamed index of dates and no \<open>date\<close>
  column, so the index is not reset and the column is not found. The merge and its check
  for an empty overlap are never reached.
\<close>

lemma process_ticker_crashes:
  assumes "headlines = scrape_finviz_headlines (parsers w) (finviz w tk)"
    and "get_daily_sentiment (vader w) headlines = Inr daily"
    and "headlines \<noteq> []" and "daily \<noteq> []"
    and "\<not> frame_empty (get_stock_data (yfinance w tk (Min (set (map fst daily))) (Max (set (map fst daily)))))"
  shows "process_ticker w conn tk = (Crashed (KeyError ''date''), conn)"
  using assms by (simp add: process_ticker_def Let_def price_rows_by_date_fetched)

text \<open>So no pass of the loop hands rows to the merge, whatever the world.\<close>

lemma process_ticker_outcomes:
  "process_ticker w conn tk = (Skipped, conn) \<or>
   process_ticker w conn tk = (Crashed (KeyError ''date''), conn)"
proof -
  let ?headlines = "scrape_finviz_headlines (parsers w) (finviz w tk)"
  let ?daily = "groupby_mean (scored_headlines (vader w) ?headlines)"
  let ?prices = "get_stock_data (yfinance w tk (Min (set (map fst ?daily))) (Max (set (map fst ?daily))))"
  have d: "get_daily_sentiment (vader w) ?headlines = Inr ?daily"
    by (rule scraped_daily_returns)
  show ?thesis
  proof (cases "?headlines = [] \<or> ?daily = [] \<or> frame_empty ?prices")
    case True
    then have "process_ticker w conn tk = (Skipped, conn)"
      by (rule process_ticker_skips[OF refl d])
    then show ?thesis ..
  next
    case False
    then have "process_ticker w conn tk = (Crashed (KeyError ''date''), conn)"
      by (intro process_ticker_crashes[OF refl d]) simp_all
    then show ?thesis ..
  qed
qed

lemma weekday_headlines:
  "scrape_finviz_headlines (parsers weekday_news) (finviz weekday_news ''AAPL'') =
     [\<lparr>datetime = Some \<lparr>day = 8, second_of_day = 36000\<rparr>, headline = Some ''Shares soar''\<rparr>,
      \<lparr>datetime = Some \<lparr>day = 9, second_of_day = 57600\<rparr>, headline = Some ''Profit warning''\<rparr>]"
  by (simp add: scrape_finviz_headlines_def weekday_news_def weekday_parsers_def full_dt_str_def)

lemma weekday_daily:
  "get_daily_sentiment (vader weekday_news)
     [\<lparr>datetime = Some \<lparr>day = 8, second_of_day = 36000\<rparr>, headline = Some ''Shares soar''\<rparr>,
      \<lparr>datetime = Some \<lparr>day = 9, second_of_day = 57600\<rparr>, headline = Some ''Profit warning''\<rparr>]
   = Inr [(8, 4 / 5), (9, - (1 / 2))]"
  by (simp add: weekday_news_def get_daily_sentiment_returns scored_headlines_def
      analyze_sentiment_def vader_stub_def groupby_mean_def mean_def)

text \<open>
  Claim C3 on the code, at the world \<open>weekday_news\<close>: AAPL has daily sentiment on the
  8th and the 9th and a price on the 8th, so the aligned output should hold the date of
  the 8th, the one date present in both. The pass over AAPL raises \<open>KeyError\<close> at line 93,
  before the merge of line 97, and stores nothing. The frame of \<open>get_stock_data\<close> never
  has a \<open>date\<close> column, so in no world does a pass of the loop produce aligned rows: a pass
  that has sentiment and prices ends the run, whether their dates overlap or not.
\<close>

theorem C3_merge_never_reached:
  "get_daily_sentiment (vader weekday_news)
     (scrape_finviz_headlines (parsers weekday_news) (finviz weekday_news ''AAPL''))
     = Inr [(8, 4 / 5), (9, - (1 / 2))] \<and>
   get_stock_data (yfinance weekday_news ''AAPL'' 8 9) =
     \<lparr>index_type = ObjectIndex, index_name = None, index_values = [8], close_column = [185],
      date_column = None\<rparr> \<and>
   fst ` set [(8 :: int, 4 / 5 :: real), (9, - (1 / 2))] \<inter> set [8] = {8} \<and>
   price_rows_by_date (get_stock_data (yfinance weekday_news ''AAPL'' 8 9)) = Inl (KeyError ''date'') \<and>
   process_ticker weekday_news stored_before ''AAPL'' = (Crashed (KeyError ''date''), stored_before) \<and>
   fst (process_ticker w conn tk) \<noteq> Processed combined_df"
proof -
  have 1: "get_stock_data (yfinance weekday_news ''AAPL'' 8 9) =
     \<lparr>index_type = ObjectIndex, index_name = None, index_values = [8], close_column = [185],
      date_column = None\<rparr>"
    by (simp add: get_stock_data_def weekday_news_def)
  have 2: "process_ticker weekday_news stored_before ''AAPL'' = (Crashed (KeyError ''date''), stored_before)"
    by (rule process_ticker_crashes[OF refl, where daily = "[(8, 4 / 5), (9, - (1 / 2))]"])
       (simp_all add: weekday_daily weekday_headlines 1 frame_empty_def)
  have 3: "fst (process_ticker w conn tk) \<noteq> Processed combined_df"
    using process_ticker_outcomes[of w conn tk] by auto
  have 4: "price_rows_by_date (get_stock_data (yfinance weekday_news ''AAPL'' 8 9)) = Inl (KeyError ''date'')"
    by (rule price_rows_by_date_fetched)
  from 1 2 3 4 show ?thesis by (simp add: weekday_daily weekday_headlines)
qed

theorem C3_merge_never_reached_witness:
  "fst (process_ticker weekday_news stored_before ''AAPL'') = Crashed (KeyError ''date'') \<and>
   fst (process_ticker weekday_news stored_before ''AAPL'')
     \<noteq> Processed [\<lparr>ticker = ''AAPL'', date = 8, adj_close = 185, sentiment_score = 4 / 5\<rparr>]"
  using C3_merge_never_reached[of weekday_news stored_before "''AAPL''"
      "[\<lparr>ticker = ''AAPL'', date = 8, adj_close = 185, sentiment_score = 4 / 5\<rparr>]"]
  by simp

lemma weekend_headlines:
  "scrape_finviz_headlines (parsers weekend_news) (finviz weekend_news ''AAPL'') =
     [\<lparr>datetime = Some \<lparr>day = 6, second_of_day = 34200\<rparr>, headline = Some ''Shares soar''\<rparr>,
      \<lparr>datetime = Some \<lparr>day = 9, second_of_day = 57600\<rparr>, headline = Some ''Profit warning''\<rparr>]"
  by (simp add: scrape_finviz_headlines_def weekend_news_def finviz_parsers_def full_dt_str_def)

lemma weekend_daily:
  "get_daily_sentiment (vader weekend_news)
     [\<lparr>datetime = Some \<lparr>day = 6, second_of_day = 34200\<rparr>, headline = Some ''Shares soar''\<rparr>,
      \<lparr>datetime = Some \<lparr>day = 9, second_of_day = 57600\<rparr>, headline = Some ''Profit warning''\<rparr>]
   = Inr [(6, 4 / 5), (9, - (1 / 2))]"
  by (simp add: weekend_news_def get_daily_sentiment_returns scored_headlines_def
      analyze_sentiment_def vader_stub_def groupby_mean_def mean_def)

text \<open>
  Claim C6 on the code, at the world \<open>weekend_news\<close>: MSFT, without headlines, is
  skipped; AAPL, whose sentiment dates (the 6th and the 9th) and price date (the 8th) do
  not overlap, is not skipped: the pass raises \<open>KeyError\<close>, and the run over MSFT, AAPL
  and GOOGL ends there without reaching GOOGL.
\<close>

theorem C6_no_overlap_raises:
  "get_daily_sentiment (vader weekend_news)
     (scrape_finviz_headlines (parsers weekend_news) (finviz weekend_news ''AAPL''))
     = Inr [(6, 4 / 5), (9, - (1 / 2))] \<and>
   get_stock_data (yfinance weekend_news ''AAPL'' 6 9) =
     \<lparr>index_type = ObjectIndex, index_name = None, index_values = [8], close_column = [185],
      date_column = None\<rparr> \<and>
   process_ticker weekend_news stored_before ''MSFT'' = (Skipped, stored_before) \<and>
   process_ticker weekend_news stored_before ''AAPL'' = (Crashed (KeyError ''date''), stored_before) \<and>
   process_tickers weekend_news [''MSFT'', ''AAPL'', ''GOOGL''] [] stored_before
     = (Inl (KeyError ''date''), stored_before)"
proof -
  have 1: "get_stock_data (yfinance weekend_news ''AAPL'' 6 9) =
     \<lparr>index_type = ObjectIndex, index_name = None, index_values = [8], close_column = [185],
      date_column = None\<rparr>"
    by (simp add: get_stock_data_def weekend_news_def)
  have 2: "process_ticker weekend_news stored_before ''AAPL'' = (Crashed (KeyError ''date''), stored_before)"
    by (rule process_ticker_crashes[OF refl, where daily = "[(6, 4 / 5), (9, - (1 / 2))]"])
       (simp_all add: weekend_daily weekend_headlines 1 frame_empty_def)
  have 3: "process_ticker weekend_news stored_before ''MSFT'' = (Skipped, stored_before)"
    by (rule process_ticker_skips[OF refl, where daily = "[]"])
       (simp_all add: scrape_finviz_headlines_def weekend_news_def get_daily_sentiment_def)
  from 1 2 3 show ?thesis by (simp add: weekend_daily weekend_headlines)
qed

theorem C6_no_overlap_raises_witness:
  "fst (process_tickers weekend_news [''MSFT'', ''AAPL'', ''GOOGL''] [] stored_before)
     = Inl (KeyError ''date'')"
  using C6_no_overlap_raises by simp


section \<open>The caller's frame\<close>

lemma those_map_Some [simp]: "those (map Some xs) = Some xs"
  by (induction xs) auto

lemma assign_price_change_columns:
  assumes "length col = length df"
  shows "map ticker (assign_price_change col df) = map ticker df"
    and "map adj_close (assign_price_change col df) = map adj_close df"
    and "map sentiment_score (assign_price_change col df) = map sentiment_score df"
    and "map sentiment_lagged (assign_price_change col df) = map sentiment_lagged df"
    and "map price_change (assign_price_change col df) = map Some col"
    and "length (assign_price_change col df) = length df"
  using assms
  by (induction col df rule: list_induct2) (auto simp: assign_price_change_def)

lemma assign_sentiment_lagged_columns:
  assumes "length col = length df"
  shows "map ticker (assign_sentiment_lagged col df) = map ticker df"
    and "map adj_close (assign_sentiment_lagged col df) = map adj_close df"
    and "map sentiment_score (assign_sentiment_lagged col df) = map sentiment_score df"
    and "map price_change (assign_sentiment_lagged col df) = map price_change df"
    and "map sentiment_lagged (assign_sentiment_lagged col df) = map Some col"
    and "length (assign_sentiment_lagged col df) = length df"
  using assms
  by (induction col df rule: list_induct2) (auto simp: assign_sentiment_lagged_def)

lemma group_rows_column:
  "map col (group_rows k df) = map snd (filter (\<lambda>p. fst p = k) (zip (map ticker df) (map col df)))"
  by (induction df) (auto simp: group_rows_def)

lemma length_group_rows:
  "length (group_rows k df) = length (filter (\<lambda>t. t = k) (map ticker df))"
  by (induction df) (auto simp: group_rows_def)

lemma groupby_transform_columns:
  "groupby_transform f col df =
     map (\<lambda>i. f (map snd (filter (\<lambda>p. fst p = map ticker df ! i) (zip (map ticker df) (map col df))))
               ! length (filter (\<lambda>t. t = map ticker df ! i) (take i (map ticker df))))
         [0..<length (map ticker df)]"
  unfolding groupby_transform_def
  by (simp add: group_rows_column length_group_rows take_map)

lemma groupby_transform_cong:
  assumes "map ticker df' = map ticker df" and "map col df' = map col df"
  shows "groupby_transform f col df' = groupby_transform f col df"
  unfolding groupby_transform_columns assms ..

lemma group_cells_keys:
  "group_cells k df column = map snd (filter (\<lambda>p. fst p = k) (zip (map ticker df) column))"
  unfolding group_cells_def
  by (induction df arbitrary: column) (auto simp: zip_Cons1 split: list.splits)

lemma group_cells_cong:
  "map ticker df' = map ticker df \<Longrightarrow> group_cells k df' column = group_cells k df column"
  by (simp add: group_cells_keys)

lemma group_keys_cong:
  "map ticker df' = map ticker df \<Longrightarrow> group_keys df' = group_keys df"
  by (simp add: group_keys_def)

lemma two_columns_assigned:
  assumes "length s = length df" and "length p = length df"
  shows "two_columns (assign_sentiment_lagged s (assign_price_change p df)) = Inr (zip s p)"
  using assms
  by (simp add: two_columns_def assign_sentiment_lagged_columns assign_price_change_columns)

lemma dropna_rows_cells:
  assumes "length s = length df" and "length df = length p"
  shows "map sentiment_lagged (dropna_rows (assign_sentiment_lagged s (assign_price_change p df)))
           = map Some (map fst (dropna (zip s p)))"
    and "map price_change (dropna_rows (assign_sentiment_lagged s (assign_price_change p df)))
           = map Some (map snd (dropna (zip s p)))"
  using assms
  by (induction s df p rule: list_induct3)
     (simp_all add: dropna_rows_def dropna_def assign_sentiment_lagged_def assign_price_change_def)

lemma dropna_rows_assigned:
  assumes "length s = length df" and "length df = length p"
  shows "two_columns (dropna_rows (assign_sentiment_lagged s (assign_price_change p df)))
           = Inr (dropna (zip s p))"
    and "length (dropna_rows (assign_sentiment_lagged s (assign_price_change p df)))
           = length (dropna (zip s p))"
proof -
  let ?rows = "dropna_rows (assign_sentiment_lagged s (assign_price_change p df))"
  show "two_columns ?rows = Inr (dropna (zip s p))"
    unfolding two_columns_def dropna_rows_cells[OF assms]
    by (simp only: those_map_Some option.case zip_map_fst_snd)
  have "length (map sentiment_lagged ?rows) = length (map Some (map fst (dropna (zip s p))))"
    by (simp only: dropna_rows_cells[OF assms])
  then show "length ?rows = length (dropna (zip s p))" by simp
qed


lemma alloc_simps [simp]:
  "fst (alloc frame h) = length h" "snd (alloc frame h) = h @ [frame]"
  by (simp_all add: alloc_def)

lemma on_heap_grouped:
  fixes h :: heap and sl pl :: int and df :: nat
  assumes "h ! df \<noteq> []"
  defines "sorted_df \<equiv> sort_values True (h ! df)"
  defines "p \<equiv> groupby_transform (pct_change pl) adj_close sorted_df"
  defines "s \<equiv> groupby_transform (shift sl) sentiment_score sorted_df"
  shows "calculate_sentiment_price_correlation_on_heap df sl pl True h =
           (Inr (calculate_sentiment_price_correlation (h ! df) sl pl True),
            h @ [sorted_df, assign_sentiment_lagged s (assign_price_change p sorted_df)])"
proof -
  let ?a1 = "length h" and ?a2 = "Suc (length h)"
  let ?h2 = "h @ [sorted_df, sorted_df]"
  let ?f3 = "assign_price_change p sorted_df"
  let ?f4 = "assign_sentiment_lagged s ?f3"
  have lp: "length p = length sorted_df" and ls: "length s = length sorted_df"
    by (simp_all add: p_def s_def)
  have h2: "?h2 ! ?a2 = sorted_df"
    by (simp add: nth_append)
  have h3: "?h2[?a2 := ?f3] = h @ [sorted_df, ?f3]"
    by (simp add: list_update_append)
  have h4: "(h @ [sorted_df, ?f3])[?a2 := ?f4] = h @ [sorted_df, ?f4]"
    by (simp add: list_update_append)
  have n3: "(h @ [sorted_df, ?f3]) ! ?a2 = ?f3" and n4: "(h @ [sorted_df, ?f4]) ! ?a2 = ?f4"
    by (simp_all add: nth_append)
  have s3: "groupby_transform (shift sl) sentiment_score ?f3 = s"
    unfolding s_def
    by (rule groupby_transform_cong) (simp_all add: assign_price_change_columns lp)
  have t4: "map ticker ?f4 = map ticker sorted_df"
    by (simp add: assign_sentiment_lagged_columns assign_price_change_columns lp ls)
  have cols: "two_columns ?f4 = Inr (zip s p)"
    by (rule two_columns_assigned) (simp_all add: lp ls)
  have pure: "calculate_sentiment_price_correlation (h ! df) sl pl True =
      PerTicker (map (\<lambda>k. (k, nancorr 1 (group_cells k sorted_df (zip s p)))) (group_keys sorted_df))"
    using assms(1)
    by (simp add: calc_grouped lagged_frame_snd_grouped sorted_df_def s_def p_def)
  have "calculate_sentiment_price_correlation_on_heap df sl pl True h =
      (case two_columns ?f4 of
         Inl e \<Rightarrow> Inl e
       | Inr cells \<Rightarrow> Inr (PerTicker (map (\<lambda>k. (k, nancorr 1 (group_cells k ?f4 cells)))
                                         (group_keys ?f4))),
       h @ [sorted_df, ?f4])"
    using assms(1)
    unfolding calculate_sentiment_price_correlation_on_heap_def
    by (simp add: alloc_def Let_def nth_append list_update_append sorted_df_def[symmetric]
        p_def[symmetric] s3 cong: sum.case_cong)
  also have "\<dots> = (Inr (calculate_sentiment_price_correlation (h ! df) sl pl True), h @ [sorted_df, ?f4])"
    by (simp add: cols pure group_cells_cong[OF t4] group_keys_cong[OF t4])
  finally show ?thesis .
qed


lemma lagged_frame_snd_pooled:
  "map snd (lagged_frame df sl pl False) =
     zip (shift sl (map sentiment_score (sort_values False df)))
         (pct_change pl (map adj_close (sort_values False df)))"
  by (simp add: lagged_frame_def Let_def)

lemma on_heap_pooled:
  fixes h :: heap and sl pl :: int and df :: nat
  assumes "h ! df \<noteq> []"
  defines "sorted_df \<equiv> sort_values False (h ! df)"
  defines "p \<equiv> pct_change pl (map adj_close sorted_df)"
  defines "s \<equiv> shift sl (map sentiment_score sorted_df)"
  shows "calculate_sentiment_price_correlation_on_heap df sl pl False h =
           (Inr (calculate_sentiment_price_correlation (h ! df) sl pl False),
            h @ [sorted_df, assign_sentiment_lagged s (assign_price_change p sorted_df),
                 dropna_rows (assign_sentiment_lagged s (assign_price_change p sorted_df))])"
proof -
  let ?f3 = "assign_price_change p sorted_df"
  let ?f4 = "assign_sentiment_lagged s ?f3"
  let ?f5 = "dropna_rows ?f4"
  have lp: "length p = length sorted_df" and ls: "length s = length sorted_df"
    by (simp_all add: p_def s_def)
  have s3: "shift sl (map sentiment_score ?f3) = s"
    by (simp add: s_def assign_price_change_columns lp)
  have cols: "two_columns ?f5 = Inr (dropna (zip s p))"
    and len: "length ?f5 = length (dropna (zip s p))"
    by (simp_all add: dropna_rows_assigned lp ls)
  have emp: "?f5 = [] \<longleftrightarrow> dropna (zip s p) = []"
    using len by (metis length_0_conv)
  have pure: "calculate_sentiment_price_correlation (h ! df) sl pl False =
      (if dropna (zip s p) = [] \<or> length (dropna (zip s p)) < 2 then Overall NaN
       else Overall (series_corr (dropna (zip s p))))"
    using assms(1)
    by (simp add: calc_pooled lagged_frame_snd_pooled sorted_df_def s_def p_def Let_def)
  have "calculate_sentiment_price_correlation_on_heap df sl pl False h =
      (if ?f5 = [] \<or> length ?f5 < 2 then (Inr (Overall NaN), h @ [sorted_df, ?f4, ?f5])
       else (case two_columns ?f5 of
               Inl e \<Rightarrow> Inl e
             | Inr cells \<Rightarrow> Inr (Overall (series_corr cells)),
             h @ [sorted_df, ?f4, ?f5]))"
    using assms(1)
    unfolding calculate_sentiment_price_correlation_on_heap_def
    by (simp add: alloc_def Let_def nth_append list_update_append sorted_df_def[symmetric]
        p_def[symmetric] s3 cong: sum.case_cong)
  also have "\<dots> = (Inr (calculate_sentiment_price_correlation (h ! df) sl pl False),
                   h @ [sorted_df, ?f4, ?f5])"
    by (simp add: cols len emp pure)
  finally show ?thesis .
qed

text \<open>
  Claim C8. For every store, every reference \<open>df\<close> to a frame in it and all arguments:
  after the call every object that was in the store, the caller's frame among them, is
  what it was (the call only adds objects: the sorted frame, its copy with the two derived
  columns, and in the pooled mode the cleaned frame); and the call returns, without
  \<open>KeyError\<close>, the value that \<open>calculate_sentiment_price_correlation\<close> computes from the
  rows of the caller's frame.
\<close>

theorem C8_caller_frame_unchanged:
  assumes "df < length h"
  shows "take (length h) (snd (calculate_sentiment_price_correlation_on_heap df sl pl grp h)) = h \<and>
         snd (calculate_sentiment_price_correlation_on_heap df sl pl grp h) ! df = h ! df \<and>
         fst (calculate_sentiment_price_correlation_on_heap df sl pl grp h)
           = Inr (calculate_sentiment_price_correlation (h ! df) sl pl grp)"
proof (cases "h ! df = []")
  case True
  then show ?thesis
    by (simp add: calculate_sentiment_price_correlation_on_heap_def
        calculate_sentiment_price_correlation_def)
next
  case False
  show ?thesis
  proof (cases grp)
    case True
    with assms on_heap_grouped[OF False, of sl pl] show ?thesis
      by (simp add: nth_append)
  next
    case False
    with assms on_heap_pooled[OF \<open>h ! df \<noteq> []\<close>, of sl pl] show ?thesis
      by (simp add: nth_append)
  qed
qed

lemma caller_heap_price_change:
  "groupby_transform (pct_change 1) adj_close (sort_values True (caller_heap ! 0))
     = [NaN, Finite (1 / 100), Finite (- (2 / 101))]"
  by code_simp

lemma caller_heap_after:
  "map price_change (snd (calculate_sentiment_price_correlation_on_heap 0 1 1 True caller_heap) ! 2)
     = [Some NaN, Some (Finite (1 / 100)), Some (Finite (- (2 / 101)))]"
proof -
  have ne: "caller_heap ! 0 \<noteq> []" and l: "length caller_heap = 1"
    by (simp_all add: caller_heap_def scenario_A_def)
  let ?sorted = "sort_values True (caller_heap ! 0)"
  let ?p = "groupby_transform (pct_change 1) adj_close ?sorted"
  let ?s = "groupby_transform (shift 1) sentiment_score ?sorted"
  have "snd (calculate_sentiment_price_correlation_on_heap 0 1 1 True caller_heap) ! 2
          = assign_sentiment_lagged ?s (assign_price_change ?p ?sorted)"
    unfolding on_heap_grouped[OF ne] by (simp add: nth_append l)
  moreover have "map price_change (assign_sentiment_lagged ?s (assign_price_change ?p ?sorted))
          = map Some ?p"
    by (simp add: assign_sentiment_lagged_columns assign_price_change_columns)
  ultimately show ?thesis
    by (simp only: caller_heap_price_change list.map)
qed

theorem C8_caller_frame_unchanged_witness:
  "0 < length caller_heap \<and>
   snd (calculate_sentiment_price_correlation_on_heap 0 1 1 True caller_heap) ! 0 = caller_heap ! 0 \<and>
   map price_change (caller_heap ! 0) = [None, None, None] \<and>
   map price_change (snd (calculate_sentiment_price_correlation_on_heap 0 1 1 True caller_heap) ! 2)
     = [Some NaN, Some (Finite (1 / 100)), Some (Finite (- (2 / 101)))] \<and>
   fst (calculate_sentiment_price_correlation_on_heap 0 1 1 True caller_heap)
     = Inr (calculate_sentiment_price_correlation (caller_heap ! 0) 1 1 True)"
proof -
  have l: "0 < length caller_heap" by (simp add: caller_heap_def)
  have n: "map price_change (caller_heap ! 0) = [None, None, None]"
    by (simp add: caller_heap_def scenario_A_def combined.extend_def)
  from C8_caller_frame_unchanged[OF l, of 1 1 True] l n caller_heap_after show ?thesis
    by blast
qed

end
